theory Spec2Isabelle
  imports Complex_Main "HOL-Library.AList" "HOL-Library.Char_ord" "HOL-Library.List_Lexorder"
begin

section \<open>JavaScript values, JSON documents and thrown errors\<close>

text \<open>
  The values a caller can hand to the storage API. Numbers are the integers a double holds
  exactly. A valid \<open>Date\<close> is identified with the text its \<open>toISOString()\<close> prints, and
  \<open>JDate None\<close> is the invalid date; a \<open>Blob\<close> is identified with its MIME type and the
  base64 text of its bytes. An object is the list of its own enumerable properties in
  property order (array indices first, in ascending order, then the other names in the
  order they were created), a \<open>Map\<close> the list of its entries and a \<open>Set\<close> the list of its
  members in insertion order.
\<close>

datatype jsval =
    JUndefined
  | JNull
  | JBool bool
  | JNum int
  | JStr string
  | JArr "jsval list"
  | JObj "(string \<times> jsval) list"
  | JMap "(jsval \<times> jsval) list"
  | JSet "jsval list"
  | JDate "string option"
  | JBlob string string

text \<open>
  A JSON text is represented by the document it denotes, object members in the order they
  are printed, so two texts are equal as strings exactly when their documents are equal.
\<close>

datatype json =
    JsNull
  | JsBool bool
  | JsNum int
  | JsStr string
  | JsArr "json list"
  | JsObj "(string \<times> json) list"

text \<open>
  A thrown error: the name of the class it was constructed from and its message. The
  classes \<open>StorageError\<close>, \<open>QuotaExceededError\<close>, \<open>MigrationError\<close> and
  \<open>SerializationError\<close> are the ones the main module declares; every other name is a
  class of the platform, all of which extend \<open>Error\<close>.
\<close>

datatype error = Thrown (err_class: string) (err_message: string)

definition class_chain :: "string \<Rightarrow> string list" where
  "class_chain c =
     (if c = ''QuotaExceededError'' \<or> c = ''MigrationError'' \<or> c = ''SerializationError''
      then [c, ''StorageError'', ''Error'']
      else if c = ''Error'' then [c]
      else [c, ''Error''])"

definition instanceof :: "error \<Rightarrow> string \<Rightarrow> bool" where
  "instanceof e c = (c \<in> set (class_chain (err_class e)))"

definition QuotaExceededError :: error where
  "QuotaExceededError = Thrown ''QuotaExceededError'' ''Storage quota exceeded''"

definition SerializationError :: "string \<Rightarrow> error" where
  "SerializationError msg = Thrown ''SerializationError'' msg"

text \<open>Property names every plain object inherits from \<open>Object.prototype\<close>.\<close>

definition object_prototype_props :: "string list" where
  "object_prototype_props =
     [''constructor'', ''__proto__'', ''hasOwnProperty'', ''isPrototypeOf'',
      ''propertyIsEnumerable'', ''toLocaleString'', ''toString'', ''valueOf'',
      ''__defineGetter__'', ''__defineSetter__'', ''__lookupGetter__'', ''__lookupSetter__'']"

text \<open>\<open>key in obj\<close> for a plain object: an own property or an inherited one.\<close>

definition js_in :: "string \<Rightarrow> (string \<times> 'a) list \<Rightarrow> bool" where
  "js_in k obj = (k \<in> set (map fst obj) \<or> k \<in> set object_prototype_props)"

text \<open>Truthiness, as \<open>if (v)\<close>, \<open>!v\<close> and \<open>a || b\<close> read it.\<close>

fun truthy :: "jsval \<Rightarrow> bool" where
  "truthy JUndefined = False"
| "truthy JNull = False"
| "truthy (JBool b) = b"
| "truthy (JNum n) = (n \<noteq> 0)"
| "truthy (JStr s) = (s \<noteq> [])"
| "truthy _ = True"

text \<open>Reading a property of a plain object: \<open>undefined\<close> when it has none of that name.\<close>

definition get_prop :: "(string \<times> jsval) list \<Rightarrow> string \<Rightarrow> jsval" where
  "get_prop obj k = (case map_of obj k of None \<Rightarrow> JUndefined | Some v \<Rightarrow> v)"

subsection \<open>Creating the properties of a plain object\<close>

text \<open>
  A property name is an array index when it is the canonical decimal text of an integer
  from 0 to \<open>2\<^sup>3\<^sup>2 - 2\<close>. A plain object enumerates its array indices first, in
  ascending numeric order, and then its other names in the order they were created.
\<close>

definition index_value :: "string \<Rightarrow> int" where
  "index_value s = foldl (\<lambda>n c. 10 * n + (of_char c - 48)) 0 s"

definition is_array_index :: "string \<Rightarrow> bool" where
  "is_array_index s =
     (s \<noteq> [] \<and> list_all (\<lambda>c. c \<in> set ''0123456789'') s
      \<and> (s = ''0'' \<or> hd s \<noteq> CHR ''0'') \<and> index_value s \<le> 4294967294)"

fun insert_index :: "string \<Rightarrow> 'a \<Rightarrow> (string \<times> 'a) list \<Rightarrow> (string \<times> 'a) list" where
  "insert_index k v [] = [(k, v)]"
| "insert_index k v ((k', v') # rest) =
     (if is_array_index k' \<and> index_value k' < index_value k
      then (k', v') # insert_index k v rest
      else (k, v) # (k', v') # rest)"

text \<open>
  Defining a property, as \<open>JSON.parse\<close> and \<open>Object.fromEntries\<close> do: a name the object
  already has keeps its place and takes the new value; a new array index is put in
  numeric order; any other new name goes last.
\<close>

definition define_property :: "string \<Rightarrow> 'a \<Rightarrow> (string \<times> 'a) list \<Rightarrow> (string \<times> 'a) list" where
  "define_property k v obj =
     (if k \<in> set (map fst obj) then AList.update k v obj
      else if is_array_index k then insert_index k v obj
      else AList.update k v obj)"

text \<open>
  The assignment \<open>obj[key] = v\<close> on an object literal: as above, except that assigning to
  \<open>__proto__\<close> goes to the setter inherited from \<open>Object.prototype\<close> and creates no own
  property. The prototype that setter may install is not tracked.
\<close>

definition assign_property :: "string \<Rightarrow> 'a \<Rightarrow> (string \<times> 'a) list \<Rightarrow> (string \<times> 'a) list" where
  "assign_property k v obj =
     (if k = ''__proto__'' \<and> k \<notin> set (map fst obj) then obj else define_property k v obj)"

definition create_object :: "(string \<times> 'a) list \<Rightarrow> (string \<times> 'a) list" where
  "create_object entries = foldl (\<lambda>obj (k, v). define_property k v obj) [] entries"

subsection \<open>\<open>JSON.stringify\<close> and \<open>JSON.parse\<close>\<close>

text \<open>
  \<open>JSON.stringify\<close> returns \<open>undefined\<close> for \<open>undefined\<close>, prints \<open>null\<close> for an
  \<open>undefined\<close> array element, leaves an \<open>undefined\<close> property out, prints a \<open>Date\<close> as
  its \<open>toJSON()\<close> (the date text, or \<open>null\<close> for the invalid date), and prints a \<open>Map\<close>, a
  \<open>Set\<close> or a \<open>Blob\<close> (objects with no own enumerable property) as \<open>{}\<close>. \<open>JSON.parse\<close>
  defines the members of an object in the order of the text.
\<close>

fun stringify :: "jsval \<Rightarrow> json option"
  and stringify_elems :: "jsval list \<Rightarrow> json list"
  and stringify_props :: "(string \<times> jsval) list \<Rightarrow> (string \<times> json) list" where
  "stringify JUndefined = None"
| "stringify JNull = Some JsNull"
| "stringify (JBool b) = Some (JsBool b)"
| "stringify (JNum n) = Some (JsNum n)"
| "stringify (JStr s) = Some (JsStr s)"
| "stringify (JArr xs) = Some (JsArr (stringify_elems xs))"
| "stringify (JObj kvs) = Some (JsObj (stringify_props kvs))"
| "stringify (JMap es) = Some (JsObj [])"
| "stringify (JSet xs) = Some (JsObj [])"
| "stringify (JDate d) = Some (case d of None \<Rightarrow> JsNull | Some t \<Rightarrow> JsStr t)"
| "stringify (JBlob mime b64) = Some (JsObj [])"
| "stringify_elems [] = []"
| "stringify_elems (x # xs) =
     (case stringify x of None \<Rightarrow> JsNull | Some j \<Rightarrow> j) # stringify_elems xs"
| "stringify_props [] = []"
| "stringify_props ((k, v) # kvs) =
     (case stringify v of None \<Rightarrow> stringify_props kvs
      | Some j \<Rightarrow> (k, j) # stringify_props kvs)"

fun parse :: "json \<Rightarrow> jsval"
  and parse_elems :: "json list \<Rightarrow> jsval list"
  and parse_props :: "(string \<times> json) list \<Rightarrow> (string \<times> jsval) list" where
  "parse JsNull = JNull"
| "parse (JsBool b) = JBool b"
| "parse (JsNum n) = JNum n"
| "parse (JsStr s) = JStr s"
| "parse (JsArr xs) = JArr (parse_elems xs)"
| "parse (JsObj kvs) = JObj (create_object (parse_props kvs))"
| "parse_elems [] = []"
| "parse_elems (x # xs) = parse x # parse_elems xs"
| "parse_props [] = []"
| "parse_props ((k, v) # kvs) = (k, parse v) # parse_props kvs"

text \<open>
  The length of the compact text \<open>JSON.stringify\<close> prints for a document, which the audit
  log records as the size of a write. An integer of magnitude below \<open>10\<^sup>2\<^sup>1\<close> is printed
  with all its digits; from there on the platform prints an exponent form, whose length is
  the parameter \<open>big\<close>.
\<close>

function digits :: "int \<Rightarrow> nat" where
  "digits n = (if n < 10 then 1 else Suc (digits (n div 10)))"
  by pat_completeness auto
termination
  by (relation "measure nat") auto

definition escaped_length :: "char \<Rightarrow> nat" where
  "escaped_length c =
     (if c = CHR 0x22 \<or> c = CHR 0x5C then 2
      else if c = CHR 0x08 \<or> c = CHR 0x09 \<or> c = CHR 0x0A \<or> c = CHR 0x0C \<or> c = CHR 0x0D then 2
      else if of_char c < (32 :: nat) then 6
      else 1)"

definition string_length :: "string \<Rightarrow> nat" where
  "string_length s = 2 + sum_list (map escaped_length s)"

fun text_length :: "(int \<Rightarrow> nat) \<Rightarrow> json \<Rightarrow> nat"
  and elems_length :: "(int \<Rightarrow> nat) \<Rightarrow> json list \<Rightarrow> nat"
  and props_length :: "(int \<Rightarrow> nat) \<Rightarrow> (string \<times> json) list \<Rightarrow> nat" where
  "text_length big JsNull = 4"
| "text_length big (JsBool b) = (if b then 4 else 5)"
| "text_length big (JsNum n) =
     (if 1000000000000000000000 \<le> \<bar>n\<bar> then big n
      else if n < 0 then Suc (digits (- n))
      else digits n)"
| "text_length big (JsStr s) = string_length s"
| "text_length big (JsArr xs) = 2 + elems_length big xs + (length xs - 1)"
| "text_length big (JsObj kvs) = 2 + props_length big kvs + (length kvs - 1)"
| "elems_length big [] = 0"
| "elems_length big (x # xs) = text_length big x + elems_length big xs"
| "props_length big [] = 0"
| "props_length big ((k, v) # kvs) =
     string_length k + 1 + text_length big v + props_length big kvs"

section \<open>Serialized payloads, profiles and what the module takes from outside\<close>

text \<open>
  What flows through the write pipeline after the serializer: \<open>undefined\<close> (what
  \<open>JSON.stringify\<close> returns for a value it cannot print), a JSON text, a string that is not
  JSON text (the output of the compressor or of an encryption hook), a \<open>Uint8Array\<close> (the
  output of the MessagePack encoder), or the plain object with index keys that a
  \<open>Uint8Array\<close> becomes when it is printed to JSON and parsed again.
\<close>

datatype payload =
    PUndefined
  | PText json
  | PStr string
  | PBytes "nat list"
  | PObject "nat list"

definition falsy :: "payload \<Rightarrow> bool" where
  "falsy p = (p = PUndefined \<or> p = PStr [])"

text \<open>
  \<open>lz-string\<close> and \<open>@msgpack/msgpack\<close> are dependencies, not code of the repository: their
  four functions are parameters of the model. So are two functions of the platform:
  \<open>Date_text v\<close> is the text \<open>new Date(v).toISOString()\<close> prints, or \<open>None\<close> when \<open>new Date(v)\<close>
  is the invalid date, and \<open>exponent_length n\<close> is the length of the exponent form printed
  for an integer \<open>n\<close> of magnitude \<open>10\<^sup>2\<^sup>1\<close> or more.
\<close>

record libs =
  compressToUTF16 :: "payload \<Rightarrow> error + payload"
  decompressFromUTF16 :: "payload \<Rightarrow> error + payload"
  msgpackEncode :: "jsval \<Rightarrow> error + payload"
  msgpackDecode :: "payload \<Rightarrow> error + jsval"
  Date_text :: "jsval \<Rightarrow> string option"
  exponent_length :: "int \<Rightarrow> nat"

record profile =
  compression :: string
  serialization :: string
  adaptive :: bool
  maxRetries :: nat

definition safe_mode_profile :: profile where
  "safe_mode_profile =
     \<lparr>compression = ''none'', serialization = ''json'', adaptive = False, maxRetries = 5\<rparr>"

text \<open>
  \<open>StorageProfiles[name]\<close> for a name inherited from \<open>Object.prototype\<close> is a truthy value
  with none of a profile's properties. Reading \<open>compression\<close> or \<open>serialization\<close> from it
  gives \<open>undefined\<close>, which the strategy tables look up as the name \<open>undefined\<close>.
\<close>

definition inherited_profile :: profile where
  "inherited_profile =
     \<lparr>compression = ''undefined'', serialization = ''undefined'', adaptive = False,
      maxRetries = 0\<rparr>"

definition StorageProfiles :: "string \<Rightarrow> profile option" where
  "StorageProfiles name =
     (if name = ''ultra-fast'' then
        Some \<lparr>compression = ''none'', serialization = ''json'', adaptive = False, maxRetries = 1\<rparr>
      else if name = ''max-compression'' then
        Some \<lparr>compression = ''lz-string'', serialization = ''msgpack'', adaptive = True, maxRetries = 3\<rparr>
      else if name = ''low-memory'' then
        Some \<lparr>compression = ''lz-string'', serialization = ''json'', adaptive = False, maxRetries = 1\<rparr>
      else if name = ''safe-mode'' then Some safe_mode_profile
      else if name \<in> set object_prototype_props then Some inherited_profile
      else None)"

record encryption_hooks =
  preWriteEncrypt :: "(payload \<Rightarrow> error + payload) option"
  postReadDecrypt :: "(payload \<Rightarrow> error + payload) option"

text \<open>The options of one \<open>set\<close> call: \<open>ttl\<close> (seconds), \<open>serialization\<close>, \<open>compression\<close>, \<open>force\<close>.\<close>

record set_options =
  o_ttl :: "int option"
  o_serialization :: "string option"
  o_compression :: "string option"
  o_force :: bool

definition no_options :: set_options where
  "no_options = \<lparr>o_ttl = None, o_serialization = None, o_compression = None, o_force = False\<rparr>"

text \<open>\<open>a || b\<close> on an optional string: the empty string is falsy as well.\<close>

definition or_else :: "string option \<Rightarrow> string \<Rightarrow> string" where
  "or_else a b = (case a of None \<Rightarrow> b | Some x \<Rightarrow> if x = [] then b else x)"

definition and_then :: "error + 'a \<Rightarrow> ('a \<Rightarrow> error + 'b) \<Rightarrow> error + 'b" where
  "and_then r f = (case r of Inl e \<Rightarrow> Inl e | Inr x \<Rightarrow> f x)"

subsection \<open>The strategy tables\<close>

text \<open>
  \<open>SerializationStrategies[strategy]\<close> and \<open>CompressionEngines[compression]\<close> are lookups in
  object literals: a name the literal does not list yields \<open>undefined\<close>, except that a name
  inherited from \<open>Object.prototype\<close> yields a value without a \<open>serialize\<close> or \<open>compress\<close>
  method, so calling it is a \<open>TypeError\<close>.
\<close>

definition json_serialize :: "jsval \<Rightarrow> payload" where
  "json_serialize data = (case stringify data of None \<Rightarrow> PUndefined | Some j \<Rightarrow> PText j)"

text \<open>
  \<open>JSON.parse\<close> succeeds on a JSON text; every other payload is first converted to a string
  that is not JSON text (\<open>undefined\<close>, \<open>[object Object]\<close>, the compressor's output) and is
  a \<open>SyntaxError\<close>.
\<close>

definition json_deserialize :: "payload \<Rightarrow> error + jsval" where
  "json_deserialize data =
     (case data of PText j \<Rightarrow> Inr (parse j)
      | _ \<Rightarrow> Inl (Thrown ''SyntaxError'' ''Unexpected token''))"

definition strategy_serialize :: "libs \<Rightarrow> string \<Rightarrow> jsval \<Rightarrow> error + payload" where
  "strategy_serialize l strategy data =
     (if strategy = ''json'' then Inr (json_serialize data)
      else if strategy = ''msgpack'' then msgpackEncode l data
      else if strategy \<in> set object_prototype_props
        then Inl (Thrown ''TypeError'' ''serializer.serialize is not a function'')
      else Inl (SerializationError (''Unknown serialization strategy: '' @ strategy)))"

definition strategy_deserialize :: "libs \<Rightarrow> string \<Rightarrow> payload \<Rightarrow> error + jsval" where
  "strategy_deserialize l strategy data =
     (if strategy = ''json'' then json_deserialize data
      else if strategy = ''msgpack'' then msgpackDecode l data
      else Inl (Thrown ''TypeError'' ''Cannot read properties of undefined''))"

definition engine_compress :: "libs \<Rightarrow> string \<Rightarrow> payload \<Rightarrow> error + payload" where
  "engine_compress l c data =
     (if c = ''lz-string'' then compressToUTF16 l data
      else if c = ''none'' then Inr data
      else if c \<in> set object_prototype_props
        then Inl (Thrown ''TypeError'' ''compressor.compress is not a function'')
      else Inr data)"

definition engine_decompress :: "libs \<Rightarrow> string \<Rightarrow> payload \<Rightarrow> error + payload" where
  "engine_decompress l c data =
     (if c = ''lz-string'' then decompressFromUTF16 l data
      else if c = ''none'' then Inr data
      else if c \<in> set object_prototype_props
        then Inl (Thrown ''TypeError'' ''compressor.decompress is not a function'')
      else Inr data)"

subsection \<open>Tagging special types on write, rebuilding them on read\<close>

definition data_url :: "string \<Rightarrow> string \<Rightarrow> string" where
  "data_url mime b64 =
     ''data:'' @ (if mime = [] then ''application/octet-stream'' else mime) @ '';base64,'' @ b64"

text \<open>
  The first step of \<open>serialize\<close>: only the value itself is inspected, never what it
  contains. \<open>toISOString\<close> throws on the invalid date. A \<open>Blob\<close> is read through a
  \<open>FileReader\<close>, which exists in a browser only.
\<close>

definition tag_special :: "bool \<Rightarrow> jsval \<Rightarrow> error + jsval" where
  "tag_special has_FileReader v =
     (case v of
        JMap es \<Rightarrow>
          Inr (JObj [(''__type'', JStr ''Map''), (''value'', JArr (map (\<lambda>(k, x). JArr [k, x]) es))])
      | JSet xs \<Rightarrow> Inr (JObj [(''__type'', JStr ''Set''), (''value'', JArr xs)])
      | JDate d \<Rightarrow>
          (case d of
             None \<Rightarrow> Inl (Thrown ''RangeError'' ''Invalid time value'')
           | Some t \<Rightarrow> Inr (JObj [(''__type'', JStr ''Date''), (''value'', JStr t)]))
      | JBlob mime b64 \<Rightarrow>
          (if has_FileReader
           then Inr (JObj [(''__type'', JStr ''Blob''), (''value'', JStr (data_url mime b64)),
                           (''type'', JStr mime)])
           else Inl (Thrown ''ReferenceError'' ''FileReader is not defined''))
      | _ \<Rightarrow> Inr v)"

fun is_primitive :: "jsval \<Rightarrow> bool" where
  "is_primitive JUndefined = True"
| "is_primitive JNull = True"
| "is_primitive (JBool b) = True"
| "is_primitive (JNum n) = True"
| "is_primitive (JStr s) = True"
| "is_primitive _ = False"

text \<open>
  \<open>Map.prototype.set\<close> and \<open>Set.prototype.add\<close>: a primitive key that is already present
  keeps its place; an object is a key of its own, since every parsed object is fresh.
\<close>

fun map_set :: "jsval \<Rightarrow> jsval \<Rightarrow> (jsval \<times> jsval) list \<Rightarrow> (jsval \<times> jsval) list" where
  "map_set k v [] = [(k, v)]"
| "map_set k v ((k', v') # es) =
     (if is_primitive k \<and> k = k' then (k, v) # es else (k', v') # map_set k v es)"

fun set_add :: "jsval \<Rightarrow> jsval list \<Rightarrow> jsval list" where
  "set_add x [] = [x]"
| "set_add x (y # ys) = (if is_primitive x \<and> x = y then y # ys else y # set_add x ys)"

text \<open>An entry handed to \<open>new Map\<close> must be an object; its properties \<open>0\<close> and \<open>1\<close> are read.\<close>

fun map_entry :: "jsval \<Rightarrow> (jsval \<times> jsval) option" where
  "map_entry (JArr []) = Some (JUndefined, JUndefined)"
| "map_entry (JArr [k]) = Some (k, JUndefined)"
| "map_entry (JArr (k # v # rest)) = Some (k, v)"
| "map_entry (JObj kvs) = Some (get_prop kvs ''0'', get_prop kvs ''1'')"
| "map_entry v = (if is_primitive v then None else Some (JUndefined, JUndefined))"

fun map_of_entries :: "jsval list \<Rightarrow> (jsval \<times> jsval) list \<Rightarrow> error + (jsval \<times> jsval) list" where
  "map_of_entries [] acc = Inr acc"
| "map_of_entries (x # xs) acc =
     (case map_entry x of
        None \<Rightarrow> Inl (Thrown ''TypeError'' ''Iterator value is not an entry object'')
      | Some (k, v) \<Rightarrow> map_of_entries xs (map_set k v acc))"

definition new_Map :: "jsval \<Rightarrow> error + jsval" where
  "new_Map v =
     (case v of
        JUndefined \<Rightarrow> Inr (JMap [])
      | JNull \<Rightarrow> Inr (JMap [])
      | JArr xs \<Rightarrow> and_then (map_of_entries xs []) (\<lambda>es. Inr (JMap es))
      | JMap es \<Rightarrow> Inr (JMap es)
      | JSet xs \<Rightarrow> and_then (map_of_entries xs []) (\<lambda>es. Inr (JMap es))
      | JStr s \<Rightarrow> and_then (map_of_entries (map (\<lambda>c. JStr [c]) s) []) (\<lambda>es. Inr (JMap es))
      | _ \<Rightarrow> Inl (Thrown ''TypeError'' ''object is not iterable''))"

definition new_Set :: "jsval \<Rightarrow> error + jsval" where
  "new_Set v =
     (case v of
        JUndefined \<Rightarrow> Inr (JSet [])
      | JNull \<Rightarrow> Inr (JSet [])
      | JArr xs \<Rightarrow> Inr (JSet (foldl (\<lambda>acc x. set_add x acc) [] xs))
      | JSet xs \<Rightarrow> Inr (JSet xs)
      | JMap es \<Rightarrow> Inr (JSet (map (\<lambda>(k, x). JArr [k, x]) es))
      | JStr s \<Rightarrow> Inr (JSet (foldl (\<lambda>acc x. set_add x acc) [] (map (\<lambda>c. JStr [c]) s)))
      | _ \<Rightarrow> Inl (Thrown ''TypeError'' ''object is not iterable''))"

text \<open>\<open>new Date(v)\<close>, by the platform's reading of \<open>v\<close>.\<close>

definition new_Date :: "libs \<Rightarrow> jsval \<Rightarrow> jsval" where
  "new_Date l v = JDate (Date_text l v)"

text \<open>\<open>s.split(',')[1]\<close>: the text between the first and the second comma, if there is a comma.\<close>

definition second_segment :: "string \<Rightarrow> string option" where
  "second_segment s =
     (if CHR '','' \<in> set s
      then Some (takeWhile (\<lambda>c. c \<noteq> CHR '','') (tl (dropWhile (\<lambda>c. c \<noteq> CHR '','') s)))
      else None)"

text \<open>
  The \<open>Blob\<close> case. A byte sequence is identified with its base64 text, so \<open>atob\<close> is the
  identity on it; \<open>atob(undefined)\<close> throws.
\<close>

definition new_Blob :: "(string \<times> jsval) list \<Rightarrow> error + jsval" where
  "new_Blob parsed =
     (case get_prop parsed ''value'' of
        JStr s \<Rightarrow>
          (case second_segment s of
             None \<Rightarrow> Inl (Thrown ''InvalidCharacterError'' ''The string to be decoded is not correctly encoded'')
           | Some blobData \<Rightarrow>
               Inr (JBlob (case get_prop parsed ''type'' of JStr t \<Rightarrow> t | _ \<Rightarrow> []) blobData))
      | _ \<Rightarrow> Inl (Thrown ''TypeError'' ''parsed.value.split is not a function''))"

text \<open>
  The last step of \<open>deserialize\<close>: a parsed object with a truthy \<open>__type\<close> is switched on that
  tag; any other tag, and any other value, is returned as parsed.
\<close>

definition hydrate :: "libs \<Rightarrow> jsval \<Rightarrow> error + jsval" where
  "hydrate l parsed =
     (case parsed of
        JObj kvs \<Rightarrow>
          (if truthy (get_prop kvs ''__type'') then
             (if get_prop kvs ''__type'' = JStr ''Map'' then new_Map (get_prop kvs ''value'')
              else if get_prop kvs ''__type'' = JStr ''Set'' then new_Set (get_prop kvs ''value'')
              else if get_prop kvs ''__type'' = JStr ''Date'' then Inr (new_Date l (get_prop kvs ''value''))
              else if get_prop kvs ''__type'' = JStr ''Blob'' then new_Blob kvs
              else Inr parsed)
           else Inr parsed)
      | _ \<Rightarrow> Inr parsed)"

section \<open>The three storage layers\<close>

text \<open>
  The record every layer stores under a key. \<open>ttl\<close> is the absolute expiry instant in
  milliseconds, or \<open>null\<close>. Every operation of the model happens at one instant \<open>now\<close>, the
  value of \<open>Date.now()\<close> throughout the call.
\<close>

record entry =
  "value" :: payload
  createdAt :: int
  updatedAt :: int
  version :: nat
  ttl :: "int option"

text \<open>\<open>ttl ? Date.now() + ttl * 1000 : null\<close>, for a \<open>ttl\<close> that is a number of seconds or absent.\<close>

definition expiry :: "int option \<Rightarrow> int \<Rightarrow> int option" where
  "expiry ttl_seconds now =
     (case ttl_seconds of None \<Rightarrow> None
      | Some t \<Rightarrow> if t = 0 then None else Some (now + t * 1000))"

text \<open>\<open>item.ttl && Date.now() > item.ttl\<close>; its negation is \<open>!item.ttl || Date.now() <= item.ttl\<close>.\<close>

definition expired :: "int \<Rightarrow> entry \<Rightarrow> bool" where
  "expired now item = (case ttl item of None \<Rightarrow> False | Some t \<Rightarrow> t \<noteq> 0 \<and> now > t)"

subsection \<open>MemoryStorage\<close>

text \<open>
  \<open>this.data\<close> is a \<open>Map\<close>: the list of its entries in insertion order. \<open>Map.prototype.set\<close>
  is \<^const>\<open>AList.update\<close> (a key already present keeps its place) and
  \<open>Map.prototype.delete\<close> is \<^const>\<open>AList.delete\<close>.
\<close>

type_synonym memory_data = "(string \<times> entry) list"

definition MemoryStorage_set :: "string \<Rightarrow> payload \<Rightarrow> int option \<Rightarrow> int \<Rightarrow> memory_data \<Rightarrow> memory_data" where
  "MemoryStorage_set key v ttl_seconds now d =
     AList.update key
       \<lparr>value = v, createdAt = now, updatedAt = now, version = 1, ttl = expiry ttl_seconds now\<rparr> d"

definition MemoryStorage_get :: "string \<Rightarrow> int \<Rightarrow> memory_data \<Rightarrow> payload option \<times> memory_data" where
  "MemoryStorage_get key now d =
     (case map_of d key of
        None \<Rightarrow> (None, d)
      | Some item \<Rightarrow>
          if expired now item then (None, AList.delete key d) else (Some (value item), d))"

definition MemoryStorage_remove :: "string \<Rightarrow> memory_data \<Rightarrow> memory_data" where
  "MemoryStorage_remove key d = AList.delete key d"

definition MemoryStorage_clear :: "memory_data \<Rightarrow> memory_data" where
  "MemoryStorage_clear d = []"

definition MemoryStorage_keys :: "memory_data \<Rightarrow> string list" where
  "MemoryStorage_keys d = map fst d"

definition MemoryStorage_has :: "string \<Rightarrow> int \<Rightarrow> memory_data \<Rightarrow> bool \<times> memory_data" where
  "MemoryStorage_has key now d =
     (case map_of d key of
        None \<Rightarrow> (False, d)
      | Some item \<Rightarrow> if expired now item then (False, AList.delete key d) else (True, d))"

definition MemoryStorage_size :: "int \<Rightarrow> memory_data \<Rightarrow> nat \<times> memory_data" where
  "MemoryStorage_size now d =
     (let d' = filter (\<lambda>(key, item). \<not> expired now item) d in (length d', d'))"

text \<open>\<open>exportAll\<close> fills an object literal: \<open>data[key] = item.value\<close> for every live entry.\<close>

definition MemoryStorage_exportAll :: "int \<Rightarrow> memory_data \<Rightarrow> (string \<times> payload) list" where
  "MemoryStorage_exportAll now d =
     foldl (\<lambda>data (key, item).
              if expired now item then data else assign_property key (value item) data)
       [] d"

fun MemoryStorage_importAll :: "(string \<times> payload) list \<Rightarrow> int \<Rightarrow> memory_data \<Rightarrow> memory_data" where
  "MemoryStorage_importAll [] now d = d"
| "MemoryStorage_importAll ((key, v) # rest) now d =
     MemoryStorage_importAll rest now (MemoryStorage_set key v None now d)"

definition MemoryStorage_supports :: bool where
  "MemoryStorage_supports = True"

subsection \<open>The browser: \<open>window.localStorage\<close> and the IndexedDB object store\<close>

text \<open>
  A text kept in \<open>localStorage\<close> is either the JSON text of an entry record, represented by
  the record it denotes, or a text \<open>JSON.parse\<close> rejects. The origin's byte quota is
  abstracted to a number of items: \<open>setItem\<close> under a new key throws the platform's
  \<open>QuotaExceededError\<close> (a \<open>DOMException\<close>) once \<open>ls_capacity\<close> items are stored.

  The IndexedDB object store \<open>storage\<close> (key path \<open>key\<close>) is the list of its records in
  ascending key order; its requests are taken to succeed.
\<close>

datatype ls_text = EntryText entry | Unparsable string

record browser =
  has_window :: bool
  has_indexedDB :: bool
  has_localStorage :: bool
  ls_items :: "(string \<times> ls_text) list"
  ls_capacity :: nat
  idb_items :: "(string \<times> entry) list"

definition setItem :: "string \<Rightarrow> ls_text \<Rightarrow> browser \<Rightarrow> error + browser" where
  "setItem k text w =
     (if k \<in> set (map fst (ls_items w)) \<or> length (ls_items w) < ls_capacity w
      then Inr (w\<lparr>ls_items := AList.update k text (ls_items w)\<rparr>)
      else Inl (Thrown ''DOMException'' ''QuotaExceededError''))"

definition getItem :: "string \<Rightarrow> browser \<Rightarrow> ls_text option" where
  "getItem k w = map_of (ls_items w) k"

definition removeItem :: "string \<Rightarrow> browser \<Rightarrow> browser" where
  "removeItem k w = w\<lparr>ls_items := AList.delete k (ls_items w)\<rparr>"

subsection \<open>LocalStorageStorage\<close>

definition prefix :: "string \<Rightarrow> string" where
  "prefix namespace = ''lsa_'' @ namespace @ ''_''"

definition startsWith :: "string \<Rightarrow> string \<Rightarrow> bool" where
  "startsWith s p = (take (length p) s = p)"

text \<open>
  What \<open>JSON.parse(JSON.stringify(data))\<close> makes of the stored payload: a string comes
  back as it was, \<open>undefined\<close> is left out and read as \<open>undefined\<close>, a \<open>Uint8Array\<close> comes
  back as a plain object with index keys.
\<close>

definition json_copy :: "payload \<Rightarrow> payload" where
  "json_copy p = (case p of PBytes bs \<Rightarrow> PObject bs | _ \<Rightarrow> p)"

definition LocalStorageStorage_set ::
    "string \<Rightarrow> string \<Rightarrow> payload \<Rightarrow> int option \<Rightarrow> int \<Rightarrow> browser \<Rightarrow> error + browser" where
  "LocalStorageStorage_set ns key v ttl_seconds now w =
     setItem (prefix ns @ key)
       (EntryText \<lparr>value = json_copy v, createdAt = now, updatedAt = now, version = 1,
                   ttl = expiry ttl_seconds now\<rparr>) w"

definition LocalStorageStorage_remove :: "string \<Rightarrow> string \<Rightarrow> browser \<Rightarrow> browser" where
  "LocalStorageStorage_remove ns key w = removeItem (prefix ns @ key) w"

definition LocalStorageStorage_get ::
    "string \<Rightarrow> string \<Rightarrow> int \<Rightarrow> browser \<Rightarrow> payload option \<times> browser" where
  "LocalStorageStorage_get ns key now w =
     (case getItem (prefix ns @ key) w of
        None \<Rightarrow> (None, w)
      | Some (Unparsable t) \<Rightarrow> (None, w)
      | Some (EntryText data) \<Rightarrow>
          if expired now data then (None, LocalStorageStorage_remove ns key w)
          else (Some (value data), w))"

definition LocalStorageStorage_clear :: "string \<Rightarrow> browser \<Rightarrow> browser" where
  "LocalStorageStorage_clear ns w =
     w\<lparr>ls_items := filter (\<lambda>(k, t). \<not> startsWith k (prefix ns)) (ls_items w)\<rparr>"

definition LocalStorageStorage_keys :: "string \<Rightarrow> browser \<Rightarrow> string list" where
  "LocalStorageStorage_keys ns w =
     map (\<lambda>k. drop (length (prefix ns)) k)
       (filter (\<lambda>k. startsWith k (prefix ns)) (map fst (ls_items w)))"

definition LocalStorageStorage_has :: "string \<Rightarrow> string \<Rightarrow> browser \<Rightarrow> bool" where
  "LocalStorageStorage_has ns key w = (getItem (prefix ns @ key) w \<noteq> None)"

definition LocalStorageStorage_size :: "string \<Rightarrow> browser \<Rightarrow> nat" where
  "LocalStorageStorage_size ns w = length (LocalStorageStorage_keys ns w)"

text \<open>
  The loop of \<open>exportAll\<close> over the keys listed at its start; each \<open>get\<close> may evict, and
  \<open>data[key] = value\<close> is an assignment on the object built so far.
\<close>

fun LocalStorageStorage_export_loop ::
    "string \<Rightarrow> string list \<Rightarrow> int \<Rightarrow> browser \<Rightarrow> (string \<times> payload) list
      \<Rightarrow> (string \<times> payload) list \<times> browser" where
  "LocalStorageStorage_export_loop ns [] now w data = (data, w)"
| "LocalStorageStorage_export_loop ns (key # keys) now w data =
     (case LocalStorageStorage_get ns key now w of
        (None, w') \<Rightarrow> LocalStorageStorage_export_loop ns keys now w' data
      | (Some v, w') \<Rightarrow>
          LocalStorageStorage_export_loop ns keys now w' (assign_property key v data))"

definition LocalStorageStorage_exportAll ::
    "string \<Rightarrow> int \<Rightarrow> browser \<Rightarrow> (string \<times> payload) list \<times> browser" where
  "LocalStorageStorage_exportAll ns now w =
     LocalStorageStorage_export_loop ns (LocalStorageStorage_keys ns w) now w []"

text \<open>\<open>importAll\<close> writes entry after entry and stops at the first \<open>setItem\<close> that throws.\<close>

fun LocalStorageStorage_importAll ::
    "string \<Rightarrow> (string \<times> payload) list \<Rightarrow> int \<Rightarrow> browser \<Rightarrow> error option \<times> browser" where
  "LocalStorageStorage_importAll ns [] now w = (None, w)"
| "LocalStorageStorage_importAll ns ((key, v) # rest) now w =
     (case LocalStorageStorage_set ns key v None now w of
        Inl e \<Rightarrow> (Some e, w)
      | Inr w' \<Rightarrow> LocalStorageStorage_importAll ns rest now w')"

definition LocalStorageStorage_supports :: "browser \<Rightarrow> bool \<times> browser" where
  "LocalStorageStorage_supports w =
     (if \<not> has_localStorage w then (False, w)
      else case setItem ''__localStorage_test__'' (Unparsable ''__localStorage_test__'') w of
             Inl e \<Rightarrow> (False, w)
           | Inr w' \<Rightarrow> (True, removeItem ''__localStorage_test__'' w'))"

subsection \<open>IndexedDBStorage\<close>

text \<open>\<open>store.put(data)\<close>: replace the record of that key, or insert it in key order.\<close>

fun put :: "string \<Rightarrow> entry \<Rightarrow> (string \<times> entry) list \<Rightarrow> (string \<times> entry) list" where
  "put k data [] = [(k, data)]"
| "put k data ((k', data') # rest) =
     (if k = k' then (k, data) # rest
      else if k < k' then (k, data) # (k', data') # rest
      else (k', data') # put k data rest)"

definition IndexedDBStorage_set :: "string \<Rightarrow> payload \<Rightarrow> int option \<Rightarrow> int \<Rightarrow> browser \<Rightarrow> browser" where
  "IndexedDBStorage_set key v ttl_seconds now w =
     w\<lparr>idb_items := put key
         \<lparr>value = v, createdAt = now, updatedAt = now, version = 1, ttl = expiry ttl_seconds now\<rparr>
         (idb_items w)\<rparr>"

definition IndexedDBStorage_remove :: "string \<Rightarrow> browser \<Rightarrow> browser" where
  "IndexedDBStorage_remove key w = w\<lparr>idb_items := AList.delete key (idb_items w)\<rparr>"

definition IndexedDBStorage_get :: "string \<Rightarrow> int \<Rightarrow> browser \<Rightarrow> payload option \<times> browser" where
  "IndexedDBStorage_get key now w =
     (case map_of (idb_items w) key of
        None \<Rightarrow> (None, w)
      | Some data \<Rightarrow>
          if expired now data then (None, IndexedDBStorage_remove key w)
          else (Some (value data), w))"

definition IndexedDBStorage_clear :: "browser \<Rightarrow> browser" where
  "IndexedDBStorage_clear w = w\<lparr>idb_items := []\<rparr>"

definition IndexedDBStorage_keys :: "browser \<Rightarrow> string list" where
  "IndexedDBStorage_keys w = map fst (idb_items w)"

definition IndexedDBStorage_has :: "string \<Rightarrow> int \<Rightarrow> browser \<Rightarrow> bool \<times> browser" where
  "IndexedDBStorage_has key now w =
     (case IndexedDBStorage_get key now w of (v, w') \<Rightarrow> (v \<noteq> None, w'))"

definition IndexedDBStorage_size :: "browser \<Rightarrow> nat" where
  "IndexedDBStorage_size w = length (IndexedDBStorage_keys w)"

definition IndexedDBStorage_exportAll :: "int \<Rightarrow> browser \<Rightarrow> (string \<times> payload) list" where
  "IndexedDBStorage_exportAll now w =
     foldl (\<lambda>data (key, item).
              if expired now item then data else assign_property key (value item) data)
       [] (idb_items w)"

fun IndexedDBStorage_importAll :: "(string \<times> payload) list \<Rightarrow> int \<Rightarrow> browser \<Rightarrow> browser" where
  "IndexedDBStorage_importAll [] now w = w"
| "IndexedDBStorage_importAll ((key, v) # rest) now w =
     IndexedDBStorage_importAll rest now
       (w\<lparr>idb_items := put key
            \<lparr>value = v, createdAt = now, updatedAt = now, version = 1, ttl = None\<rparr>
            (idb_items w)\<rparr>)"

definition IndexedDBStorage_supports :: "browser \<Rightarrow> bool" where
  "IndexedDBStorage_supports w = has_indexedDB w"

section \<open>The orchestrator: \<open>LocalStorageAPI\<close>\<close>

record cache_record =
  cached_value :: jsval
  timestamp :: int

record audit_record =
  action :: string
  audit_key :: "string option"
  audit_timestamp :: int
  size :: "nat option"

record history_record =
  history_type :: string
  history_key :: string
  history_value :: "jsval option"
  oldValue :: jsval

record snapshot =
  data :: "(string \<times> jsval) list"
  snapshot_timestamp :: int
  snapshot_version :: int

record metrics =
  reads :: nat
  writes :: nat
  deletes :: nat
  readLatency :: "int list"
  writeLatency :: "int list"
  errors :: "error list"

text \<open>What \<open>emit\<close> dispatched, and what \<open>broadcast\<close> posted on the sync channel.\<close>

datatype event =
    Change string jsval
  | Delete string
  | Clear
  | Import
  | ErrorEvent string "string option" error

record message =
  message_type :: string
  tabId :: string
  message_timestamp :: int
  message_key :: "string option"
  message_value :: "jsval option"

record sync_options =
  channel :: bool
  sync_tabId :: "string option"

text \<open>
  The hooks are functions of the caller. A hook returns a value (or throws); \<open>beforeClear\<close>
  and \<open>afterClear\<close> take no argument and are given by their outcome.
\<close>

record hooks =
  beforeSet :: "(string \<Rightarrow> jsval \<Rightarrow> set_options \<Rightarrow> error + jsval) option"
  afterSet :: "(string \<Rightarrow> jsval \<Rightarrow> set_options \<Rightarrow> error option) option"
  beforeDelete :: "(string \<Rightarrow> error + jsval) option"
  afterDelete :: "(string \<Rightarrow> error option) option"
  beforeClear :: "(error + jsval) option"
  afterClear :: "(error option) option"

definition no_hooks :: hooks where
  "no_hooks = \<lparr>beforeSet = None, afterSet = None, beforeDelete = None, afterDelete = None,
                beforeClear = None, afterClear = None\<rparr>"

datatype layer = IndexedDBStorage | LocalStorageStorage | MemoryStorage

text \<open>The constructor's \<open>options\<close> object, with the fields the type declarations list.\<close>

record storage_options =
  opt_namespace :: "string option"
  opt_profile :: "string option"
  opt_version :: "int option"
  opt_debug :: bool
  opt_safeMode :: bool
  opt_hooks :: "hooks option"
  opt_encryption :: "encryption_hooks option"
  opt_sync :: "sync_options option"
  opt_cacheTTL :: "int option"

text \<open>
  The instance. \<open>cacheTTL\<close> is the property \<open>this.cacheTTL\<close> that \<open>get\<close> reads. \<open>window\<close> is
  the browser the instance runs in and \<open>memory\<close> the \<open>Map\<close> of its \<open>MemoryStorage\<close> layer.
  \<open>emitted\<close> and \<open>posted\<close> record, in order, the events dispatched and the messages
  broadcast; \<open>error_listener\<close> tells whether a listener for \<open>error\<close> is registered. The
  fields \<open>models\<close>, \<open>migrations\<close> and \<open>locks\<close>, which no method reads or writes, are left out.
\<close>

record api =
  namespace :: string
  profile :: profile
  api_version :: int
  debug :: bool
  safeMode :: bool
  hooks :: hooks
  encryption :: "encryption_hooks option"
  sync :: "sync_options option"
  layers :: "layer list"
  currentLayer :: layer
  cache :: "string \<Rightarrow> cache_record option"
  auditLog :: "audit_record list"
  operationHistory :: "history_record list"
  snapshots :: "(string \<times> snapshot) list"
  metrics :: metrics
  cacheTTL :: "int option"
  window :: browser
  memory :: memory_data
  libraries :: libs
  emitted :: "event list"
  posted :: "message list"
  error_listener :: bool

subsection \<open>Construction and layer selection\<close>

text \<open>
  \<open>initLayers\<close>: outside a browser only the memory layer exists; the first layer whose
  \<open>supports()\<close> answers true becomes current, the last one if none does.
\<close>

fun select_layer :: "layer list \<Rightarrow> browser \<Rightarrow> layer option \<times> browser" where
  "select_layer [] w = (None, w)"
| "select_layer (IndexedDBStorage # rest) w =
     (if IndexedDBStorage_supports w then (Some IndexedDBStorage, w) else select_layer rest w)"
| "select_layer (LocalStorageStorage # rest) w =
     (case LocalStorageStorage_supports w of
        (True, w') \<Rightarrow> (Some LocalStorageStorage, w')
      | (False, w') \<Rightarrow> select_layer rest w')"
| "select_layer (MemoryStorage # rest) w =
     (if MemoryStorage_supports then (Some MemoryStorage, w) else select_layer rest w)"

definition initLayers :: "api \<Rightarrow> api" where
  "initLayers s =
     (let ls = (if has_window (window s) then [IndexedDBStorage, LocalStorageStorage] else [])
               @ [MemoryStorage]
      in case select_layer ls (window s) of
           (Some l, w) \<Rightarrow> s\<lparr>layers := ls, currentLayer := l, window := w\<rparr>
         | (None, w) \<Rightarrow> s\<lparr>layers := ls, currentLayer := last ls, window := w\<rparr>)"

definition constructor :: "storage_options \<Rightarrow> browser \<Rightarrow> libs \<Rightarrow> api" where
  "constructor options w l =
     initLayers
       \<lparr>namespace = (case opt_namespace options of None \<Rightarrow> [] | Some n \<Rightarrow> n),
        profile = (case opt_profile options of
                     None \<Rightarrow> safe_mode_profile
                   | Some name \<Rightarrow>
                       (case StorageProfiles name of
                          None \<Rightarrow> safe_mode_profile
                        | Some p \<Rightarrow> p)),
        api_version = (case opt_version options of None \<Rightarrow> 1 | Some v \<Rightarrow> if v = 0 then 1 else v),
        debug = opt_debug options,
        safeMode = opt_safeMode options,
        hooks = (case opt_hooks options of None \<Rightarrow> no_hooks | Some h \<Rightarrow> h),
        encryption = opt_encryption options,
        sync = opt_sync options,
        layers = [],
        currentLayer = MemoryStorage,
        cache = Map.empty,
        auditLog = [],
        operationHistory = [],
        snapshots = [],
        metrics = \<lparr>reads = 0, writes = 0, deletes = 0, readLatency = [], writeLatency = [],
                    errors = []\<rparr>,
        cacheTTL = None,
        window = w,
        memory = [],
        libraries = l,
        emitted = [],
        posted = [],
        error_listener = False\<rparr>"

text \<open>\<open>on('error', listener)\<close>, as far as the model sees it.\<close>

definition on_error :: "api \<Rightarrow> api" where
  "on_error s = s\<lparr>error_listener := True\<rparr>"

subsection \<open>Calls on the current layer\<close>

definition layer_set :: "api \<Rightarrow> string \<Rightarrow> payload \<Rightarrow> int option \<Rightarrow> int \<Rightarrow> error + api" where
  "layer_set s key v ttl_seconds now =
     (case currentLayer s of
        IndexedDBStorage \<Rightarrow> Inr (s\<lparr>window := IndexedDBStorage_set key v ttl_seconds now (window s)\<rparr>)
      | LocalStorageStorage \<Rightarrow>
          and_then (LocalStorageStorage_set (namespace s) key v ttl_seconds now (window s))
            (\<lambda>w. Inr (s\<lparr>window := w\<rparr>))
      | MemoryStorage \<Rightarrow> Inr (s\<lparr>memory := MemoryStorage_set key v ttl_seconds now (memory s)\<rparr>))"

definition layer_get :: "api \<Rightarrow> string \<Rightarrow> int \<Rightarrow> payload option \<times> api" where
  "layer_get s key now =
     (case currentLayer s of
        IndexedDBStorage \<Rightarrow>
          (case IndexedDBStorage_get key now (window s) of (v, w) \<Rightarrow> (v, s\<lparr>window := w\<rparr>))
      | LocalStorageStorage \<Rightarrow>
          (case LocalStorageStorage_get (namespace s) key now (window s) of
             (v, w) \<Rightarrow> (v, s\<lparr>window := w\<rparr>))
      | MemoryStorage \<Rightarrow>
          (case MemoryStorage_get key now (memory s) of (v, d) \<Rightarrow> (v, s\<lparr>memory := d\<rparr>)))"

definition layer_remove :: "api \<Rightarrow> string \<Rightarrow> api" where
  "layer_remove s key =
     (case currentLayer s of
        IndexedDBStorage \<Rightarrow> s\<lparr>window := IndexedDBStorage_remove key (window s)\<rparr>
      | LocalStorageStorage \<Rightarrow> s\<lparr>window := LocalStorageStorage_remove (namespace s) key (window s)\<rparr>
      | MemoryStorage \<Rightarrow> s\<lparr>memory := MemoryStorage_remove key (memory s)\<rparr>)"

definition layer_clear :: "api \<Rightarrow> api" where
  "layer_clear s =
     (case currentLayer s of
        IndexedDBStorage \<Rightarrow> s\<lparr>window := IndexedDBStorage_clear (window s)\<rparr>
      | LocalStorageStorage \<Rightarrow> s\<lparr>window := LocalStorageStorage_clear (namespace s) (window s)\<rparr>
      | MemoryStorage \<Rightarrow> s\<lparr>memory := MemoryStorage_clear (memory s)\<rparr>)"

definition layer_keys :: "api \<Rightarrow> string list" where
  "layer_keys s =
     (case currentLayer s of
        IndexedDBStorage \<Rightarrow> IndexedDBStorage_keys (window s)
      | LocalStorageStorage \<Rightarrow> LocalStorageStorage_keys (namespace s) (window s)
      | MemoryStorage \<Rightarrow> MemoryStorage_keys (memory s))"

definition layer_has :: "api \<Rightarrow> string \<Rightarrow> int \<Rightarrow> bool \<times> api" where
  "layer_has s key now =
     (case currentLayer s of
        IndexedDBStorage \<Rightarrow>
          (case IndexedDBStorage_has key now (window s) of (b, w) \<Rightarrow> (b, s\<lparr>window := w\<rparr>))
      | LocalStorageStorage \<Rightarrow> (LocalStorageStorage_has (namespace s) key (window s), s)
      | MemoryStorage \<Rightarrow>
          (case MemoryStorage_has key now (memory s) of (b, d) \<Rightarrow> (b, s\<lparr>memory := d\<rparr>)))"

definition layer_size :: "api \<Rightarrow> int \<Rightarrow> nat \<times> api" where
  "layer_size s now =
     (case currentLayer s of
        IndexedDBStorage \<Rightarrow> (IndexedDBStorage_size (window s), s)
      | LocalStorageStorage \<Rightarrow> (LocalStorageStorage_size (namespace s) (window s), s)
      | MemoryStorage \<Rightarrow>
          (case MemoryStorage_size now (memory s) of (n, d) \<Rightarrow> (n, s\<lparr>memory := d\<rparr>)))"

definition layer_exportAll :: "api \<Rightarrow> int \<Rightarrow> (string \<times> payload) list \<times> api" where
  "layer_exportAll s now =
     (case currentLayer s of
        IndexedDBStorage \<Rightarrow> (IndexedDBStorage_exportAll now (window s), s)
      | LocalStorageStorage \<Rightarrow>
          (case LocalStorageStorage_exportAll (namespace s) now (window s) of
             (d, w) \<Rightarrow> (d, s\<lparr>window := w\<rparr>))
      | MemoryStorage \<Rightarrow> (MemoryStorage_exportAll now (memory s), s))"

definition layer_importAll :: "api \<Rightarrow> (string \<times> payload) list \<Rightarrow> int \<Rightarrow> error option \<times> api" where
  "layer_importAll s d now =
     (case currentLayer s of
        IndexedDBStorage \<Rightarrow> (None, s\<lparr>window := IndexedDBStorage_importAll d now (window s)\<rparr>)
      | LocalStorageStorage \<Rightarrow>
          (case LocalStorageStorage_importAll (namespace s) d now (window s) of
             (e, w) \<Rightarrow> (e, s\<lparr>window := w\<rparr>))
      | MemoryStorage \<Rightarrow> (None, s\<lparr>memory := MemoryStorage_importAll d now (memory s)\<rparr>))"

subsection \<open>\<open>serialize\<close> and \<open>deserialize\<close>\<close>

text \<open>
  \<open>serialize\<close> takes the strategy names from the call's options, falling back to the
  profile; \<open>deserialize\<close> always takes them from the profile.
\<close>

definition serialize :: "api \<Rightarrow> jsval \<Rightarrow> set_options \<Rightarrow> error + payload" where
  "serialize s v options =
     (let strategy = or_else (o_serialization options) (serialization (profile s));
          compression_name = or_else (o_compression options) (compression (profile s))
      in and_then (tag_special (has_window (window s)) v) (\<lambda>data.
         and_then (strategy_serialize (libraries s) strategy data) (\<lambda>serialized.
         and_then (engine_compress (libraries s) compression_name serialized) (\<lambda>compressed.
           case encryption s of
             None \<Rightarrow> Inr compressed
           | Some enc \<Rightarrow>
               (case preWriteEncrypt enc of
                  None \<Rightarrow> Inr compressed
                | Some encrypt \<Rightarrow> encrypt compressed)))))"

text \<open>The value \<open>deserialize\<close> returns for a falsy payload: the payload itself.\<close>

definition falsy_value :: "payload \<Rightarrow> jsval" where
  "falsy_value p = (case p of PStr t \<Rightarrow> JStr t | _ \<Rightarrow> JUndefined)"

definition deserialize :: "api \<Rightarrow> payload \<Rightarrow> error + jsval" where
  "deserialize s p =
     (if falsy p then Inr (falsy_value p)
      else
        and_then (case encryption s of
                    None \<Rightarrow> Inr p
                  | Some enc \<Rightarrow>
                      (case postReadDecrypt enc of None \<Rightarrow> Inr p | Some decrypt \<Rightarrow> decrypt p))
          (\<lambda>decrypted.
        and_then (engine_decompress (libraries s) (compression (profile s)) decrypted)
          (\<lambda>decompressed.
        and_then (strategy_deserialize (libraries s) (serialization (profile s)) decompressed)
          (hydrate (libraries s)))))"

subsection \<open>The \<open>catch\<close> block, \<open>emit\<close> and \<open>broadcast\<close>\<close>

text \<open>
  The \<open>catch\<close> block shared by \<open>set\<close>, \<open>get\<close>, \<open>remove\<close> and \<open>clear\<close>: the error is pushed
  on \<open>metrics.errors\<close>, an \<open>error\<close> event is emitted and the error is thrown again. An
  \<open>EventEmitter\<close> with no listener for \<open>error\<close> throws from \<open>emit\<close> itself, an \<open>Error\<close> saying
  that the error event was unhandled.
\<close>

definition caught :: "string \<Rightarrow> string option \<Rightarrow> error \<Rightarrow> api \<Rightarrow> (error + 'a) \<times> api" where
  "caught act key e s =
     (let s1 = s\<lparr>metrics := (metrics s)\<lparr>errors := errors (metrics s) @ [e]\<rparr>\<rparr>
      in if error_listener s1
         then (Inl e, s1\<lparr>emitted := emitted s1 @ [ErrorEvent act key e]\<rparr>)
         else (Inl (Thrown ''Error'' ''Unhandled error.''), s1))"

definition emit :: "event \<Rightarrow> api \<Rightarrow> api" where
  "emit ev s = s\<lparr>emitted := emitted s @ [ev]\<rparr>"

definition broadcast :: "string \<Rightarrow> string option \<Rightarrow> jsval option \<Rightarrow> int \<Rightarrow> api \<Rightarrow> api" where
  "broadcast ty key v now s =
     (case sync s of
        None \<Rightarrow> s
      | Some sy \<Rightarrow>
          if channel sy
          then s\<lparr>posted := posted s @
                  [\<lparr>message_type = ty,
                    tabId = or_else (sync_tabId sy) ''unknown'',
                    message_timestamp = now, message_key = key, message_value = v\<rparr>]\<rparr>
          else s)"

subsection \<open>\<open>get\<close>, \<open>set\<close>, \<open>remove\<close>, \<open>clear\<close>\<close>

text \<open>\<open>this.cacheTTL || 300000\<close>.\<close>

definition cache_window :: "api \<Rightarrow> int" where
  "cache_window s = (case cacheTTL s of None \<Rightarrow> 300000 | Some n \<Rightarrow> if n = 0 then 300000 else n)"

definition LocalStorageAPI_get :: "api \<Rightarrow> string \<Rightarrow> int \<Rightarrow> (error + jsval) \<times> api" where
  "LocalStorageAPI_get s key now =
     (case (case cache s key of
              None \<Rightarrow> None
            | Some cached \<Rightarrow>
                if now - timestamp cached < cache_window s then Some (cached_value cached)
                else None) of
        Some v \<Rightarrow> (Inr v, s\<lparr>metrics := (metrics s)\<lparr>reads := reads (metrics s) + 1\<rparr>\<rparr>)
      | None \<Rightarrow>
          (case layer_get s key now of
             (None, s1) \<Rightarrow> (Inr JNull, s1)
           | (Some serialized, s1) \<Rightarrow>
               if falsy serialized then (Inr JNull, s1)
               else
                 (case deserialize s1 serialized of
                    Inl e \<Rightarrow> caught ''get'' (Some key) e s1
                  | Inr v \<Rightarrow>
                      (Inr v,
                       s1\<lparr>cache := (cache s1)(key \<mapsto> \<lparr>cached_value = v, timestamp = now\<rparr>),
                          metrics := (metrics s1)
                            \<lparr>reads := reads (metrics s1) + 1,
                             readLatency := readLatency (metrics s1) @ [0]\<rparr>\<rparr>))))"

text \<open>
  \<open>set\<close>. The audit record needs \<open>JSON.stringify(value).length\<close>, a \<open>TypeError\<close> when the
  value has no JSON text; the history record calls \<open>get\<close> for the old value, after the
  cache already holds the new one. The safe-mode warning only writes to the console.
\<close>

definition LocalStorageAPI_set ::
    "api \<Rightarrow> string \<Rightarrow> jsval \<Rightarrow> set_options \<Rightarrow> int \<Rightarrow> (error + unit) \<times> api" where
  "LocalStorageAPI_set s key v0 options now =
     (case (case beforeSet (hooks s) of None \<Rightarrow> Inr JUndefined | Some hook \<Rightarrow> hook key v0 options) of
        Inl e \<Rightarrow> caught ''set'' (Some key) e s
      | Inr result \<Rightarrow>
          if result = JBool False then (Inr (), s)
          else
            (let v = (if result \<noteq> JUndefined then result else v0) in
             case serialize s v options of
               Inl e \<Rightarrow> caught ''set'' (Some key) e s
             | Inr serialized \<Rightarrow>
                 (case layer_set s key serialized (o_ttl options) now of
                    Inl e \<Rightarrow> caught ''set'' (Some key) e s
                  | Inr s1 \<Rightarrow>
                      (let s2 = s1\<lparr>cache := (cache s1)(key \<mapsto> \<lparr>cached_value = v, timestamp = now\<rparr>)\<rparr>
                       in case stringify v of
                            None \<Rightarrow>
                              caught ''set'' (Some key)
                                (Thrown ''TypeError'' ''Cannot read properties of undefined'') s2
                          | Some text \<Rightarrow>
                              (let s3 = s2\<lparr>auditLog := auditLog s2 @
                                           [\<lparr>action = ''set'', audit_key = Some key,
                                             audit_timestamp = now,
                                             size = Some (text_length (exponent_length (libraries s)) text)\<rparr>]\<rparr>
                               in case LocalStorageAPI_get s3 key now of
                                    (Inl e, s4) \<Rightarrow> caught ''set'' (Some key) e s4
                                  | (Inr old, s4) \<Rightarrow>
                                      (let s5 = s4\<lparr>operationHistory := operationHistory s4 @
                                                   [\<lparr>history_type = ''set'', history_key = key,
                                                     history_value = Some v, oldValue = old\<rparr>],
                                                 metrics := (metrics s4)
                                                   \<lparr>writes := writes (metrics s4) + 1,
                                                    writeLatency := writeLatency (metrics s4) @ [0]\<rparr>\<rparr>;
                                           s6 = broadcast ''set'' (Some key) (Some v) now s5;
                                           s7 = emit (Change key v) s6
                                       in case afterSet (hooks s) of
                                            None \<Rightarrow> (Inr (), s7)
                                          | Some hook \<Rightarrow>
                                              (case hook key v options of
                                                 None \<Rightarrow> (Inr (), s7)
                                               | Some e \<Rightarrow> caught ''set'' (Some key) e s7)))))))"

definition LocalStorageAPI_remove :: "api \<Rightarrow> string \<Rightarrow> int \<Rightarrow> (error + unit) \<times> api" where
  "LocalStorageAPI_remove s key now =
     (case (case beforeDelete (hooks s) of None \<Rightarrow> Inr JUndefined | Some hook \<Rightarrow> hook key) of
        Inl e \<Rightarrow> caught ''delete'' (Some key) e s
      | Inr result \<Rightarrow>
          if result = JBool False then (Inr (), s)
          else
            (case LocalStorageAPI_get s key now of
               (Inl e, s1) \<Rightarrow> caught ''delete'' (Some key) e s1
             | (Inr old, s1) \<Rightarrow>
                 (let s2 = layer_remove s1 key;
                      s3 = s2\<lparr>cache := (cache s2)(key := None),
                              auditLog := auditLog s2 @
                                [\<lparr>action = ''delete'', audit_key = Some key,
                                  audit_timestamp = now, size = None\<rparr>],
                              operationHistory := operationHistory s2 @
                                [\<lparr>history_type = ''delete'', history_key = key,
                                  history_value = None, oldValue = old\<rparr>]\<rparr>;
                      s4 = broadcast ''delete'' (Some key) None now s3;
                      s5 = emit (Delete key) s4
                  in case afterDelete (hooks s) of
                       None \<Rightarrow> (Inr (), s5)
                     | Some hook \<Rightarrow>
                         (case hook key of
                            None \<Rightarrow> (Inr (), s5)
                          | Some e \<Rightarrow> caught ''delete'' (Some key) e s5))))"

definition LocalStorageAPI_clear :: "api \<Rightarrow> int \<Rightarrow> (error + unit) \<times> api" where
  "LocalStorageAPI_clear s now =
     (case (case beforeClear (hooks s) of None \<Rightarrow> Inr JUndefined | Some outcome \<Rightarrow> outcome) of
        Inl e \<Rightarrow> caught ''clear'' None e s
      | Inr result \<Rightarrow>
          if result = JBool False then (Inr (), s)
          else
            (let s1 = layer_clear s;
                 s2 = s1\<lparr>cache := Map.empty,
                         auditLog := auditLog s1 @
                           [\<lparr>action = ''clear'', audit_key = None, audit_timestamp = now,
                             size = None\<rparr>]\<rparr>;
                 s3 = broadcast ''clear'' None None now s2;
                 s4 = emit Clear s3
             in case afterClear (hooks s) of
                  None \<Rightarrow> (Inr (), s4)
                | Some None \<Rightarrow> (Inr (), s4)
                | Some (Some e) \<Rightarrow> caught ''clear'' None e s4))"

definition LocalStorageAPI_has :: "api \<Rightarrow> string \<Rightarrow> int \<Rightarrow> bool \<times> api" where
  "LocalStorageAPI_has s key now = layer_has s key now"

definition LocalStorageAPI_size :: "api \<Rightarrow> int \<Rightarrow> nat \<times> api" where
  "LocalStorageAPI_size s now = layer_size s now"

definition LocalStorageAPI_keys :: "api \<Rightarrow> string list" where
  "LocalStorageAPI_keys s = layer_keys s"

subsection \<open>Bulk operations, export and import\<close>

fun LocalStorageAPI_setMany ::
    "api \<Rightarrow> (string \<times> jsval) list \<Rightarrow> set_options \<Rightarrow> int \<Rightarrow> (error + unit) \<times> api" where
  "LocalStorageAPI_setMany s [] options now = (Inr (), s)"
| "LocalStorageAPI_setMany s ((key, v) # items) options now =
     (case LocalStorageAPI_set s key v options now of
        (Inl e, s') \<Rightarrow> (Inl e, s')
      | (Inr u, s') \<Rightarrow> LocalStorageAPI_setMany s' items options now)"

fun LocalStorageAPI_getMany ::
    "api \<Rightarrow> string list \<Rightarrow> int \<Rightarrow> (string \<times> jsval) list
      \<Rightarrow> (error + (string \<times> jsval) list) \<times> api" where
  "LocalStorageAPI_getMany s [] now results = (Inr results, s)"
| "LocalStorageAPI_getMany s (key # keys) now results =
     (case LocalStorageAPI_get s key now of
        (Inl e, s') \<Rightarrow> (Inl e, s')
      | (Inr v, s') \<Rightarrow> LocalStorageAPI_getMany s' keys now (assign_property key v results))"

fun LocalStorageAPI_deleteMany :: "api \<Rightarrow> string list \<Rightarrow> int \<Rightarrow> (error + unit) \<times> api" where
  "LocalStorageAPI_deleteMany s [] now = (Inr (), s)"
| "LocalStorageAPI_deleteMany s (key # keys) now =
     (case LocalStorageAPI_remove s key now of
        (Inl e, s') \<Rightarrow> (Inl e, s')
      | (Inr u, s') \<Rightarrow> LocalStorageAPI_deleteMany s' keys now)"

text \<open>The loop of \<open>exportAll\<close>: \<open>deserialized[key] = await this.deserialize(value)\<close>.\<close>

fun deserialize_entries ::
    "api \<Rightarrow> (string \<times> payload) list \<Rightarrow> (string \<times> jsval) list \<Rightarrow> error + (string \<times> jsval) list" where
  "deserialize_entries s [] deserialized = Inr deserialized"
| "deserialize_entries s ((key, v) # rest) deserialized =
     and_then (deserialize s v)
       (\<lambda>x. deserialize_entries s rest (assign_property key x deserialized))"

definition LocalStorageAPI_exportAll ::
    "api \<Rightarrow> int \<Rightarrow> (error + (string \<times> jsval) list) \<times> api" where
  "LocalStorageAPI_exportAll s now =
     (case layer_exportAll s now of (d, s1) \<Rightarrow> (deserialize_entries s1 d [], s1))"

text \<open>The loop of \<open>importAll\<close>: \<open>serialized[key] = await this.serialize(value)\<close>.\<close>

fun serialize_entries ::
    "api \<Rightarrow> (string \<times> jsval) list \<Rightarrow> (string \<times> payload) list \<Rightarrow> error + (string \<times> payload) list" where
  "serialize_entries s [] serialized = Inr serialized"
| "serialize_entries s ((key, v) # rest) serialized =
     and_then (serialize s v no_options)
       (\<lambda>x. serialize_entries s rest (assign_property key x serialized))"

text \<open>
  \<open>importAll\<close> clears the cache, serializes every entry, hands the result to the current
  layer's \<open>importAll\<close> and emits \<open>import\<close>. It has no \<open>catch\<close> block.
\<close>

definition LocalStorageAPI_importAll ::
    "api \<Rightarrow> (string \<times> jsval) list \<Rightarrow> int \<Rightarrow> (error + unit) \<times> api" where
  "LocalStorageAPI_importAll s d now =
     (let s1 = s\<lparr>cache := Map.empty\<rparr>
      in case serialize_entries s1 d [] of
           Inl e \<Rightarrow> (Inl e, s1)
         | Inr serialized \<Rightarrow>
             (case layer_importAll s1 serialized now of
                (Some e, s2) \<Rightarrow> (Inl e, s2)
              | (None, s2) \<Rightarrow> (Inr (), emit Import s2)))"

subsection \<open>The query builder\<close>

text \<open>
  The numbers \<open>limit\<close> and \<open>take\<close> are called with: a finite value (every finite double is a
  rational; \<open>Number 0\<close> stands for both zeros), \<open>NaN\<close> or an infinity.
\<close>

datatype number = Number rat | NaN | PosInfinity | NegInfinity

text \<open>
  \<open>query(options)\<close> returns an object whose methods close over \<open>options\<close>, so a builder is
  its options.
\<close>

record query_options =
  filter_fn :: "(jsval \<Rightarrow> string \<Rightarrow> bool) option"
  sort_fn :: "(string \<times> jsval \<Rightarrow> string \<times> jsval \<Rightarrow> int) option"
  limit :: "number option"
  take_n :: "number option"


definition query_filter :: "(jsval \<Rightarrow> string \<Rightarrow> bool) \<Rightarrow> query_options \<Rightarrow> query_options" where
  "query_filter fn options = options\<lparr>filter_fn := Some fn\<rparr>"

definition query_sort ::
    "(string \<times> jsval \<Rightarrow> string \<times> jsval \<Rightarrow> int) \<Rightarrow> query_options \<Rightarrow> query_options" where
  "query_sort fn options = options\<lparr>sort_fn := Some fn\<rparr>"



text \<open>\<open>Array.prototype.sort\<close> with a comparator: a stable sort, here by insertion.\<close>

fun sort_insert :: "('a \<Rightarrow> 'a \<Rightarrow> int) \<Rightarrow> 'a \<Rightarrow> 'a list \<Rightarrow> 'a list" where
  "sort_insert cmp x [] = [x]"
| "sort_insert cmp x (y # ys) = (if cmp x y \<le> 0 then x # y # ys else y # sort_insert cmp x ys)"

definition array_sort :: "('a \<Rightarrow> 'a \<Rightarrow> int) \<Rightarrow> 'a list \<Rightarrow> 'a list" where
  "array_sort cmp xs = foldr (sort_insert cmp) xs []"

text \<open>
  \<open>xs.slice(0, n)\<close>: \<open>n\<close> is truncated towards zero (\<open>NaN\<close> to 0), and a negative end counts
  from the end of the array.
\<close>

definition slice0 :: "number \<Rightarrow> 'a list \<Rightarrow> 'a list" where
  "slice0 n xs =
     (case n of
        Number q \<Rightarrow>
          (let i = (if 0 \<le> q then \<lfloor>q\<rfloor> else \<lceil>q\<rceil>)
           in if 0 \<le> i then take (nat i) xs else take (length xs - nat (- i)) xs)
      | NaN \<Rightarrow> []
      | PosInfinity \<Rightarrow> xs
      | NegInfinity \<Rightarrow> [])"

text \<open>A number is falsy when it is a zero or \<open>NaN\<close>; \<open>a || b\<close> is \<open>a\<close> when \<open>a\<close> is truthy.\<close>

definition truthy_number :: "number \<Rightarrow> bool" where
  "truthy_number n = (case n of Number q \<Rightarrow> q \<noteq> 0 | NaN \<Rightarrow> False | _ \<Rightarrow> True)"

definition or_number :: "number option \<Rightarrow> number option \<Rightarrow> number option" where
  "or_number a b = (case a of None \<Rightarrow> b | Some n \<Rightarrow> if truthy_number n then Some n else b)"

text \<open>\<open>Object.fromEntries\<close> defines one property per entry.\<close>

definition fromEntries :: "(string \<times> 'a) list \<Rightarrow> (string \<times> 'a) list" where
  "fromEntries results = create_object results"

text \<open>The body of \<open>execute\<close> after \<open>exportAll\<close>: filter and sort, then truncate.\<close>

definition filtered_sorted :: "query_options \<Rightarrow> (string \<times> jsval) list \<Rightarrow> (string \<times> jsval) list" where
  "filtered_sorted options allData =
     (let results = allData;
          results = (case filter_fn options of
                       None \<Rightarrow> results
                     | Some fn \<Rightarrow> filter (\<lambda>(key, v). fn v key) results)
      in case sort_fn options of
           None \<Rightarrow> results
         | Some fn \<Rightarrow> array_sort fn results)"

definition execute_on :: "query_options \<Rightarrow> (string \<times> jsval) list \<Rightarrow> (string \<times> jsval) list" where
  "execute_on options allData =
     (let results = filtered_sorted options allData;
          results = (case or_number (limit options) (take_n options) of
                       None \<Rightarrow> results
                     | Some n \<Rightarrow> if truthy_number n then slice0 n results else results)
      in fromEntries results)"

definition query_execute ::
    "query_options \<Rightarrow> api \<Rightarrow> int \<Rightarrow> (error + (string \<times> jsval) list) \<times> api" where
  "query_execute options s now =
     (case LocalStorageAPI_exportAll s now of
        (Inl e, s1) \<Rightarrow> (Inl e, s1)
      | (Inr allData, s1) \<Rightarrow> (Inr (execute_on options allData), s1))"

subsection \<open>Snapshots\<close>

definition LocalStorageAPI_saveSnapshot :: "api \<Rightarrow> string \<Rightarrow> int \<Rightarrow> (error + unit) \<times> api" where
  "LocalStorageAPI_saveSnapshot s name now =
     (case LocalStorageAPI_exportAll s now of
        (Inl e, s1) \<Rightarrow> (Inl e, s1)
      | (Inr d, s1) \<Rightarrow>
          (Inr (),
           s1\<lparr>snapshots := AList.update name
                \<lparr>data = d, snapshot_timestamp = now, snapshot_version = api_version s1\<rparr>
                (snapshots s1)\<rparr>))"

definition LocalStorageAPI_loadSnapshot :: "api \<Rightarrow> string \<Rightarrow> int \<Rightarrow> (error + unit) \<times> api" where
  "LocalStorageAPI_loadSnapshot s name now =
     (case map_of (snapshots s) name of
        None \<Rightarrow> (Inl (Thrown ''Error'' ''Snapshot not found''), s)
      | Some snap \<Rightarrow> LocalStorageAPI_importAll s (data snap) now)"

definition listSnapshots :: "api \<Rightarrow> (string \<times> snapshot) list" where
  "listSnapshots s = snapshots s"

record diff =
  added :: "string list"
  removed :: "string list"
  changed :: "string list"

text \<open>\<open>new Set([...xs])\<close> keeps the first occurrence of every key.\<close>

definition new_Set_of_keys :: "string list \<Rightarrow> string list" where
  "new_Set_of_keys xs = rev (remdups (rev xs))"

text \<open>
  \<open>JSON.stringify(obj[key])\<close> for a plain object: an inherited property is a function,
  which has no JSON text, except \<open>__proto__\<close>, which is the empty prototype object.
\<close>

definition property_text :: "(string \<times> jsval) list \<Rightarrow> string \<Rightarrow> json option" where
  "property_text obj key =
     (case map_of obj key of
        Some v \<Rightarrow> stringify v
      | None \<Rightarrow> if key = ''__proto__'' then Some (JsObj []) else None)"

fun compare_loop ::
    "string list \<Rightarrow> (string \<times> jsval) list \<Rightarrow> (string \<times> jsval) list \<Rightarrow> diff \<Rightarrow> diff" where
  "compare_loop [] d1 d2 acc = acc"
| "compare_loop (key # keys) d1 d2 acc =
     compare_loop keys d1 d2
       (if \<not> js_in key d1 then acc\<lparr>added := added acc @ [key]\<rparr>
        else if \<not> js_in key d2 then acc\<lparr>removed := removed acc @ [key]\<rparr>
        else if property_text d1 key \<noteq> property_text d2 key
          then acc\<lparr>changed := changed acc @ [key]\<rparr>
        else acc)"

definition compareSnapshots :: "api \<Rightarrow> string \<Rightarrow> string \<Rightarrow> error + diff" where
  "compareSnapshots s name1 name2 =
     (case (map_of (snapshots s) name1, map_of (snapshots s) name2) of
        (Some s1, Some s2) \<Rightarrow>
          Inr (compare_loop (new_Set_of_keys (map fst (data s1) @ map fst (data s2)))
                 (data s1) (data s2) \<lparr>added = [], removed = [], changed = []\<rparr>)
      | _ \<Rightarrow> Inl (Thrown ''Error'' ''Snapshot not found''))"

subsection \<open>The instances a caller can reach\<close>

text \<open>
  An instance is reached from the constructor, with any options, in any environment, by
  registering an \<open>error\<close> listener and by calling the public methods, whether they return
  or throw.
\<close>

inductive reachable :: "api \<Rightarrow> bool" where
  constructed: "reachable (constructor options w l)"
| listening: "reachable s \<Longrightarrow> reachable (on_error s)"
| after_set: "reachable s \<Longrightarrow> reachable (snd (LocalStorageAPI_set s key v options now))"
| after_get: "reachable s \<Longrightarrow> reachable (snd (LocalStorageAPI_get s key now))"
| after_remove: "reachable s \<Longrightarrow> reachable (snd (LocalStorageAPI_remove s key now))"
| after_clear: "reachable s \<Longrightarrow> reachable (snd (LocalStorageAPI_clear s now))"
| after_has: "reachable s \<Longrightarrow> reachable (snd (LocalStorageAPI_has s key now))"
| after_size: "reachable s \<Longrightarrow> reachable (snd (LocalStorageAPI_size s now))"
| after_setMany: "reachable s \<Longrightarrow> reachable (snd (LocalStorageAPI_setMany s items options now))"
| after_getMany: "reachable s \<Longrightarrow> reachable (snd (LocalStorageAPI_getMany s keys now []))"
| after_deleteMany: "reachable s \<Longrightarrow> reachable (snd (LocalStorageAPI_deleteMany s keys now))"
| after_exportAll: "reachable s \<Longrightarrow> reachable (snd (LocalStorageAPI_exportAll s now))"
| after_importAll: "reachable s \<Longrightarrow> reachable (snd (LocalStorageAPI_importAll s d now))"
| after_execute: "reachable s \<Longrightarrow> reachable (snd (query_execute q s now))"
| after_saveSnapshot: "reachable s \<Longrightarrow> reachable (snd (LocalStorageAPI_saveSnapshot s name now))"
| after_loadSnapshot: "reachable s \<Longrightarrow> reachable (snd (LocalStorageAPI_loadSnapshot s name now))"

subsection \<open>Environments used in the scenarios below\<close>

text \<open>
  A stand-in for the parameters in scenarios that never call them (the profile is \<open>json\<close>
  with \<open>none\<close>, no \<open>Date\<close> is rebuilt and no number reaches \<open>10\<^sup>2\<^sup>1\<close>): every library call
  throws, and the two platform functions are constant.
\<close>

definition unused_libs :: libs where
  "unused_libs =
     \<lparr>compressToUTF16 = (\<lambda>p. Inl (Thrown ''Error'' ''lz-string is not loaded'')),
      decompressFromUTF16 = (\<lambda>p. Inl (Thrown ''Error'' ''lz-string is not loaded'')),
      msgpackEncode = (\<lambda>v. Inl (Thrown ''Error'' ''msgpack is not loaded'')),
      msgpackDecode = (\<lambda>p. Inl (Thrown ''Error'' ''msgpack is not loaded'')),
      Date_text = (\<lambda>v. None),
      exponent_length = (\<lambda>n. 0)\<rparr>"

text \<open>Node.js: no \<open>window\<close>, so the memory layer is the only one.\<close>

definition node :: browser where
  "node = \<lparr>has_window = False, has_indexedDB = False, has_localStorage = False,
           ls_items = [], ls_capacity = 0, idb_items = []\<rparr>"

text \<open>A browser with IndexedDB, and one without it whose \<open>localStorage\<close> holds \<open>n\<close> items.\<close>

definition browser_with_indexedDB :: browser where
  "browser_with_indexedDB =
     \<lparr>has_window = True, has_indexedDB = True, has_localStorage = True,
      ls_items = [], ls_capacity = 100, idb_items = []\<rparr>"

definition browser_without_indexedDB :: "nat \<Rightarrow> browser" where
  "browser_without_indexedDB n =
     \<lparr>has_window = True, has_indexedDB = False, has_localStorage = True,
      ls_items = [], ls_capacity = n, idb_items = []\<rparr>"

definition default_options :: storage_options where
  "default_options =
     \<lparr>opt_namespace = None, opt_profile = None, opt_version = None, opt_debug = False,
      opt_safeMode = False, opt_hooks = None, opt_encryption = None, opt_sync = None,
      opt_cacheTTL = None\<rparr>"

text \<open>
  Three scenarios on a fresh instance in Node.js under the default profile. In the first,
  \<open>x = 1\<close> is written, snapshot \<open>S1\<close> is taken, and \<open>y = 2\<close> is written; the second goes on to
  take snapshot \<open>S2\<close>. In the third, a \<open>Map\<close> is written under \<open>m\<close>, snapshot \<open>a\<close> is taken, a
  different \<open>Map\<close> is written under \<open>m\<close> and snapshot \<open>b\<close> is taken.
\<close>

definition written_after_snapshot :: api where
  "written_after_snapshot =
     snd (LocalStorageAPI_set
       (snd (LocalStorageAPI_saveSnapshot
          (snd (LocalStorageAPI_set (constructor default_options node unused_libs)
             ''x'' (JNum 1) no_options 1000))
          ''S1'' 2000))
       ''y'' (JNum 2) no_options 3000)"

definition two_snapshots :: api where
  "two_snapshots = snd (LocalStorageAPI_saveSnapshot written_after_snapshot ''S2'' 4000)"

definition two_map_snapshots :: api where
  "two_map_snapshots =
     snd (LocalStorageAPI_saveSnapshot
       (snd (LocalStorageAPI_set
          (snd (LocalStorageAPI_saveSnapshot
             (snd (LocalStorageAPI_set (constructor default_options node unused_libs)
                ''m'' (JMap [(JStr ''x'', JNum 1)]) no_options 1000))
             ''a'' 2000))
          ''m'' (JMap [(JStr ''x'', JNum 2)]) no_options 3000))
       ''b'' 4000)"

text \<open>
  A fresh instance in Node.js on which snapshot \<open>a\<close> is taken while nothing is stored,
  \<open>1\<close> is written under the key \<open>toString\<close>, and snapshot \<open>b\<close> is taken.
\<close>

definition snapshots_around_toString :: api where
  "snapshots_around_toString =
     snd (LocalStorageAPI_saveSnapshot
       (snd (LocalStorageAPI_set
          (snd (LocalStorageAPI_saveSnapshot (constructor default_options node unused_libs)
             ''a'' 1000))
          ''toString'' (JNum 1) no_options 2000))
       ''b'' 3000)"


text \<open>
  A fresh instance in Node.js constructed with \<open>cacheTTL: 1\<close> among its options, after
  \<open>set('k', 'v')\<close> at instant 1000.
\<close>

definition written_with_cacheTTL_option :: api where
  "written_with_cacheTTL_option =
     snd (LocalStorageAPI_set
       (constructor (default_options\<lparr>opt_cacheTTL := Some 1\<rparr>) node unused_libs)
       ''k'' (JStr ''v'') no_options 1000)"

section \<open>Round trip through the pipeline\<close>

text \<open>
  C1. Claim: for every supported value category and every combination of serialization and
  compression strategy, writing a value under a key and reading the key back yields a
  value deep-equal to the original.

  \<open>serialize\<close> tags a \<open>Map\<close>, \<open>Set\<close>, \<open>Date\<close> or \<open>Blob\<close> only when it is the value itself. The
  object \<open>{a: 1, b: [2, 3], c: new Map([['d', 4]])}\<close> of the repository's test for complex
  data types, written under the default profile (\<open>json\<close>, \<open>none\<close>), comes back from the
  pipeline with \<open>c\<close> an empty object: from \<open>deserialize\<close> after \<open>serialize\<close>, from \<open>get\<close> once
  the cache record of the write is 300000 ms old, and from \<open>exportAll\<close> at once.
\<close>

theorem nested_map_is_lost_on_round_trip:
  "and_then (serialize (constructor default_options node unused_libs)
       (JObj [(''a'', JNum 1), (''b'', JArr [JNum 2, JNum 3]), (''c'', JMap [(JStr ''d'', JNum 4)])])
       no_options)
     (deserialize (constructor default_options node unused_libs))
   = Inr (JObj [(''a'', JNum 1), (''b'', JArr [JNum 2, JNum 3]), (''c'', JObj [])])
   \<and> fst (LocalStorageAPI_get
         (snd (LocalStorageAPI_set (constructor default_options node unused_libs) ''complex''
            (JObj [(''a'', JNum 1), (''b'', JArr [JNum 2, JNum 3]), (''c'', JMap [(JStr ''d'', JNum 4)])])
            no_options 1000))
         ''complex'' 301000)
   = Inr (JObj [(''a'', JNum 1), (''b'', JArr [JNum 2, JNum 3]), (''c'', JObj [])])
   \<and> fst (LocalStorageAPI_exportAll
         (snd (LocalStorageAPI_set (constructor default_options node unused_libs) ''complex''
            (JObj [(''a'', JNum 1), (''b'', JArr [JNum 2, JNum 3]), (''c'', JMap [(JStr ''d'', JNum 4)])])
            no_options 1000))
         1000)
   = Inr [(''complex'', JObj [(''a'', JNum 1), (''b'', JArr [JNum 2, JNum 3]), (''c'', JObj [])])]"
  by code_simp

section \<open>Expiry\<close>

text \<open>
  C2. Claim: once the TTL instant of a key has passed, the entry is absent on every read
  path (\<open>get\<close> returns no value, \<open>has\<close> is false, \<open>keys\<close> leaves the key out) in each of the
  three layers.

  A key written at instant 1000 with a TTL of one second expires at 2000. At 3000 the
  memory layer still lists it and \<open>get\<close> still answers from the cache; the localStorage
  layer's \<open>has\<close> still answers true and its \<open>keys\<close> still lists it; the IndexedDB layer's
  \<open>keys\<close> still lists it. (\<open>keys\<close> reads no clock, so it lists the key at every instant.)
\<close>

theorem expired_key_is_still_listed:
  "LocalStorageAPI_keys
     (snd (LocalStorageAPI_set (constructor default_options node unused_libs) ''k'' (JStr ''v'')
        (no_options\<lparr>o_ttl := Some 1\<rparr>) 1000)) = [''k'']
   \<and> fst (LocalStorageAPI_get
     (snd (LocalStorageAPI_set (constructor default_options node unused_libs) ''k'' (JStr ''v'')
        (no_options\<lparr>o_ttl := Some 1\<rparr>) 1000)) ''k'' 3000) = Inr (JStr ''v'')
   \<and> currentLayer (constructor default_options (browser_without_indexedDB 10) unused_libs)
       = LocalStorageStorage
   \<and> fst (LocalStorageAPI_has
     (snd (LocalStorageAPI_set
        (constructor default_options (browser_without_indexedDB 10) unused_libs) ''k'' (JStr ''v'')
        (no_options\<lparr>o_ttl := Some 1\<rparr>) 1000)) ''k'' 3000) = True
   \<and> LocalStorageAPI_keys
     (snd (LocalStorageAPI_set
        (constructor default_options (browser_without_indexedDB 10) unused_libs) ''k'' (JStr ''v'')
        (no_options\<lparr>o_ttl := Some 1\<rparr>) 1000)) = [''k'']
   \<and> currentLayer (constructor default_options browser_with_indexedDB unused_libs)
       = IndexedDBStorage
   \<and> LocalStorageAPI_keys
     (snd (LocalStorageAPI_set (constructor default_options browser_with_indexedDB unused_libs)
        ''k'' (JStr ''v'') (no_options\<lparr>o_ttl := Some 1\<rparr>) 1000)) = [''k'']"
  by code_simp

section \<open>A full layer\<close>

text \<open>
  C3. Claim: an operation that fails with a capacity error against the active layer is
  retried against the next lower-priority layer before any failure reaches the caller.

  In a browser without IndexedDB whose \<open>localStorage\<close> has room for one item, the
  localStorage layer is selected and the first \<open>set\<close> succeeds. The second \<open>set\<close> throws the
  platform's quota error to the caller (a listener for \<open>error\<close> is registered, so \<open>emit\<close>
  does not throw): the memory layer is never written, the current layer stays the
  localStorage layer and the key is stored nowhere.
\<close>

theorem quota_error_surfaces_without_fallback:
  "currentLayer (constructor default_options (browser_without_indexedDB 1) unused_libs)
     = LocalStorageStorage
   \<and> layers (constructor default_options (browser_without_indexedDB 1) unused_libs)
     = [IndexedDBStorage, LocalStorageStorage, MemoryStorage]
   \<and> fst (LocalStorageAPI_set
          (on_error (constructor default_options (browser_without_indexedDB 1) unused_libs))
          ''a'' (JNum 1) no_options 1000) = Inr ()
   \<and> fst (LocalStorageAPI_set
          (snd (LocalStorageAPI_set
             (on_error (constructor default_options (browser_without_indexedDB 1) unused_libs))
             ''a'' (JNum 1) no_options 1000))
          ''b'' (JNum 2) no_options 2000) = Inl (Thrown ''DOMException'' ''QuotaExceededError'')
   \<and> memory (snd (LocalStorageAPI_set
          (snd (LocalStorageAPI_set
             (on_error (constructor default_options (browser_without_indexedDB 1) unused_libs))
             ''a'' (JNum 1) no_options 1000))
          ''b'' (JNum 2) no_options 2000)) = []
   \<and> currentLayer (snd (LocalStorageAPI_set
          (snd (LocalStorageAPI_set
             (on_error (constructor default_options (browser_without_indexedDB 1) unused_libs))
             ''a'' (JNum 1) no_options 1000))
          ''b'' (JNum 2) no_options 2000)) = LocalStorageStorage
   \<and> LocalStorageAPI_keys (snd (LocalStorageAPI_set
          (snd (LocalStorageAPI_set
             (on_error (constructor default_options (browser_without_indexedDB 1) unused_libs))
             ''a'' (JNum 1) no_options 1000))
          ''b'' (JNum 2) no_options 2000)) = [''a'']"
  by code_simp

section \<open>The audit log\<close>

lemma auditLog_importAll:
  "auditLog (snd (LocalStorageAPI_importAll s d now)) = auditLog s"
  by (auto simp: LocalStorageAPI_importAll_def layer_importAll_def emit_def Let_def
      split: sum.splits option.splits prod.splits layer.splits)

text \<open>
  C6. Claim: every mutating call that commits (write, delete, clear, the bulk and import
  variants) appends exactly one record to the audit log.

  \<open>importAll\<close> never touches the audit log, whatever it imports; importing \<open>{a: 1}\<close> into a
  fresh instance succeeds, stores the key and leaves the log empty. \<open>setMany\<close> of two items
  appends two records, one per item.
\<close>

theorem importAll_appends_no_audit_record:
  "auditLog (snd (LocalStorageAPI_importAll s d now)) = auditLog s
   \<and> fst (LocalStorageAPI_importAll (constructor default_options node unused_libs)
          [(''a'', JNum 1)] 1000) = Inr ()
   \<and> LocalStorageAPI_keys (snd (LocalStorageAPI_importAll
          (constructor default_options node unused_libs) [(''a'', JNum 1)] 1000)) = [''a'']
   \<and> auditLog (snd (LocalStorageAPI_importAll
          (constructor default_options node unused_libs) [(''a'', JNum 1)] 1000)) = []
   \<and> map action (auditLog (snd (LocalStorageAPI_setMany
          (constructor default_options node unused_libs)
          [(''a'', JNum 1), (''b'', JNum 2)] no_options 1000))) = [''set'', ''set'']"
proof -
  have scenario:
    "fst (LocalStorageAPI_importAll (constructor default_options node unused_libs)
          [(''a'', JNum 1)] 1000) = Inr ()
     \<and> LocalStorageAPI_keys (snd (LocalStorageAPI_importAll
          (constructor default_options node unused_libs) [(''a'', JNum 1)] 1000)) = [''a'']
     \<and> auditLog (snd (LocalStorageAPI_importAll
          (constructor default_options node unused_libs) [(''a'', JNum 1)] 1000)) = []
     \<and> map action (auditLog (snd (LocalStorageAPI_setMany
          (constructor default_options node unused_libs)
          [(''a'', JNum 1), (''b'', JNum 2)] no_options 1000))) = [''set'', ''set'']"
    by code_simp
  show ?thesis
    by (rule conjI) (rule auditLog_importAll, rule scenario)
qed

section \<open>Entry timestamps\<close>

text \<open>
  C7. Claim: \<open>createdAt\<close> is set on the first write of a key and never changes under later
  writes of that key, while \<open>updatedAt\<close> is refreshed, in each of the three layers.

  Every layer's \<open>set\<close> builds a whole new record with \<open>createdAt: Date.now()\<close>. A key written
  at instant 1000 and again at instant 2000 is stored with \<open>createdAt = 2000\<close> in the memory
  layer, the localStorage layer and the IndexedDB layer alike.
\<close>

theorem createdAt_is_overwritten:
  "memory (snd (LocalStorageAPI_set
      (snd (LocalStorageAPI_set (constructor default_options node unused_libs)
         ''k'' (JStr ''a'') no_options 1000))
      ''k'' (JStr ''b'') no_options 2000))
   = [(''k'', \<lparr>value = PText (JsStr ''b''), createdAt = 2000, updatedAt = 2000, version = 1,
              ttl = None\<rparr>)]
   \<and> ls_items (window (snd (LocalStorageAPI_set
      (snd (LocalStorageAPI_set
         (constructor default_options (browser_without_indexedDB 10) unused_libs)
         ''k'' (JStr ''a'') no_options 1000))
      ''k'' (JStr ''b'') no_options 2000)))
   = [(''lsa__k'', EntryText \<lparr>value = PText (JsStr ''b''), createdAt = 2000, updatedAt = 2000,
                               version = 1, ttl = None\<rparr>)]
   \<and> idb_items (window (snd (LocalStorageAPI_set
      (snd (LocalStorageAPI_set (constructor default_options browser_with_indexedDB unused_libs)
         ''k'' (JStr ''a'') no_options 1000))
      ''k'' (JStr ''b'') no_options 2000)))
   = [(''k'', \<lparr>value = PText (JsStr ''b''), createdAt = 2000, updatedAt = 2000, version = 1,
              ttl = None\<rparr>)]"
  by code_simp

section \<open>Loading a snapshot\<close>

text \<open>No layer's \<open>importAll\<close> removes a key, and \<open>importAll\<close> clears nothing but the cache.\<close>

lemma keys_update: "fst ` set (AList.update k v al) = insert k (fst ` set al)"
  by (induction al) auto

lemma keys_put: "fst ` set (put k e xs) = insert k (fst ` set xs)"
  by (induction xs) force+

lemma keys_MemoryStorage_importAll:
  "set (MemoryStorage_keys (MemoryStorage_importAll d now m)) =
     set (MemoryStorage_keys m) \<union> set (map fst d)"
proof (induction d arbitrary: m)
  case Nil
  then show ?case by simp
next
  case (Cons p d)
  obtain key v where p: "p = (key, v)" by (cases p)
  have "set (MemoryStorage_keys (MemoryStorage_set key v None now m)) =
      insert key (set (MemoryStorage_keys m))"
    by (simp add: MemoryStorage_keys_def MemoryStorage_set_def keys_update)
  with Cons.IH [of "MemoryStorage_set key v None now m"] p show ?case
    by simp
qed

lemma keys_IndexedDBStorage_importAll:
  "set (IndexedDBStorage_keys (IndexedDBStorage_importAll d now w)) =
     set (IndexedDBStorage_keys w) \<union> set (map fst d)"
proof (induction d arbitrary: w)
  case Nil
  then show ?case by simp
next
  case (Cons p d)
  obtain key v where p: "p = (key, v)" by (cases p)
  let ?w = "w\<lparr>idb_items := put key
      \<lparr>value = v, createdAt = now, updatedAt = now, version = 1, ttl = None\<rparr> (idb_items w)\<rparr>"
  have "set (IndexedDBStorage_keys ?w) = insert key (set (IndexedDBStorage_keys w))"
    by (simp add: IndexedDBStorage_keys_def keys_put)
  with Cons.IH [of ?w] p show ?case
    by simp
qed

lemma keys_LocalStorageStorage_set:
  assumes "LocalStorageStorage_set ns key v t now w = Inr w'"
  shows "set (LocalStorageStorage_keys ns w') = insert key (set (LocalStorageStorage_keys ns w))"
proof -
  have items: "ls_items w' = AList.update (prefix ns @ key)
      (EntryText \<lparr>value = json_copy v, createdAt = now, updatedAt = now, version = 1,
                  ttl = expiry t now\<rparr>) (ls_items w)"
    using assms by (auto simp: LocalStorageStorage_set_def setItem_def split: if_splits)
  have "set (LocalStorageStorage_keys ns w') =
      drop (length (prefix ns)) `
        {k \<in> insert (prefix ns @ key) (fst ` set (ls_items w)). startsWith k (prefix ns)}"
    by (simp add: LocalStorageStorage_keys_def items keys_update)
  also have "{k \<in> insert (prefix ns @ key) (fst ` set (ls_items w)). startsWith k (prefix ns)} =
      insert (prefix ns @ key) {k \<in> fst ` set (ls_items w). startsWith k (prefix ns)}"
    by (auto simp: startsWith_def)
  also have "drop (length (prefix ns)) ` \<dots> =
      insert key (drop (length (prefix ns)) `
        {k \<in> fst ` set (ls_items w). startsWith k (prefix ns)})"
    by simp
  also have "\<dots> = insert key (set (LocalStorageStorage_keys ns w))"
    by (simp add: LocalStorageStorage_keys_def)
  finally show ?thesis .
qed

lemma keys_LocalStorageStorage_importAll:
  "LocalStorageStorage_importAll ns d now w = (None, w') \<Longrightarrow>
   set (LocalStorageStorage_keys ns w') = set (LocalStorageStorage_keys ns w) \<union> set (map fst d)"
proof (induction d arbitrary: w)
  case Nil
  then show ?case by simp
next
  case (Cons p d)
  obtain key v where p: "p = (key, v)" by (cases p)
  from Cons.prems p obtain w1 where
    w1: "LocalStorageStorage_set ns key v None now w = Inr w1"
    and rest: "LocalStorageStorage_importAll ns d now w1 = (None, w')"
    by (auto split: sum.splits)
  from Cons.IH [OF rest] keys_LocalStorageStorage_set [OF w1] p
  show ?case by auto
qed


lemma keys_LocalStorageStorage_importAll_grow:
  "set (LocalStorageStorage_keys ns w) \<subseteq>
   set (LocalStorageStorage_keys ns (snd (LocalStorageStorage_importAll ns d now w)))"
proof (induction d arbitrary: w)
  case Nil
  then show ?case by simp
next
  case (Cons p d)
  obtain key v where p: "p = (key, v)" by (cases p)
  show ?case
  proof (cases "LocalStorageStorage_set ns key v None now w")
    case (Inl e)
    with p show ?thesis by simp
  next
    case (Inr w1)
    from keys_LocalStorageStorage_set [OF Inr] Cons.IH [of w1] Inr p
    show ?thesis by auto
  qed
qed

lemma keys_layer_importAll_grow:
  "set (layer_keys s) \<subseteq> set (layer_keys (snd (layer_importAll s d now)))"
proof (cases "currentLayer s")
  case IndexedDBStorage
  then show ?thesis
    by (simp add: layer_importAll_def layer_keys_def keys_IndexedDBStorage_importAll)
next
  case LocalStorageStorage
  obtain r w where
    result: "LocalStorageStorage_importAll (namespace s) d now (window s) = (r, w)"
    by (cases "LocalStorageStorage_importAll (namespace s) d now (window s)")
  with keys_LocalStorageStorage_importAll_grow [of "namespace s" "window s" d now]
    LocalStorageStorage
  show ?thesis
    by (simp add: layer_importAll_def layer_keys_def)
next
  case MemoryStorage
  then show ?thesis
    by (simp add: layer_importAll_def layer_keys_def keys_MemoryStorage_importAll)
qed

lemma layer_keys_cache [simp]: "layer_keys (s\<lparr>cache := c\<rparr>) = layer_keys s"
  by (simp add: layer_keys_def split: layer.splits)

lemma layer_keys_emit [simp]: "layer_keys (emit ev s) = layer_keys s"
  by (simp add: layer_keys_def emit_def split: layer.splits)

lemma keys_importAll_grow:
  "set (LocalStorageAPI_keys s) \<subseteq> set (LocalStorageAPI_keys (snd (LocalStorageAPI_importAll s d now)))"
proof (cases "serialize_entries (s\<lparr>cache := Map.empty\<rparr>) d []")
  case (Inl e)
  then show ?thesis
    by (simp add: LocalStorageAPI_importAll_def LocalStorageAPI_keys_def)
next
  case (Inr serialized)
  with keys_layer_importAll_grow [of "s\<lparr>cache := Map.empty\<rparr>" serialized now]
  show ?thesis
    by (auto simp: LocalStorageAPI_importAll_def LocalStorageAPI_keys_def
        split: prod.splits option.splits)
qed

text \<open>
  C4. Claim: \<open>loadSnapshot(name)\<close> replaces all live state by clearing and importing, so that
  afterwards the live key set is exactly the snapshot's key set and a key absent from the
  snapshot is gone.

  \<open>loadSnapshot\<close> never removes a live key, in any state, for any name and on any layer:
  \<open>importAll\<close> clears the cache only. With \<open>x\<close> written, snapshot \<open>S1\<close> taken and \<open>y\<close> written
  afterwards, loading \<open>S1\<close> succeeds and the live keys are still \<open>x\<close> and \<open>y\<close>, and \<open>y\<close> still
  reads \<open>2\<close>, while the snapshot holds \<open>x\<close> only.
\<close>

theorem loadSnapshot_keeps_later_keys:
  "set (LocalStorageAPI_keys s) \<subseteq>
     set (LocalStorageAPI_keys (snd (LocalStorageAPI_loadSnapshot s name now)))
   \<and> map_of (snapshots written_after_snapshot) ''S1''
     = Some \<lparr>data = [(''x'', JNum 1)], snapshot_timestamp = 2000, snapshot_version = 1\<rparr>
   \<and> LocalStorageAPI_keys written_after_snapshot = [''x'', ''y'']
   \<and> fst (LocalStorageAPI_loadSnapshot written_after_snapshot ''S1'' 4000) = Inr ()
   \<and> LocalStorageAPI_keys (snd (LocalStorageAPI_loadSnapshot written_after_snapshot ''S1'' 4000))
     = [''x'', ''y'']
   \<and> fst (LocalStorageAPI_get (snd (LocalStorageAPI_loadSnapshot written_after_snapshot ''S1'' 4000))
          ''y'' 5000) = Inr (JNum 2)"
proof -
  have every_state: "set (LocalStorageAPI_keys s) \<subseteq>
     set (LocalStorageAPI_keys (snd (LocalStorageAPI_loadSnapshot s name now)))"
    using keys_importAll_grow by (simp add: LocalStorageAPI_loadSnapshot_def split: option.splits)
  have scenario:
    "map_of (snapshots written_after_snapshot) ''S1''
       = Some \<lparr>data = [(''x'', JNum 1)], snapshot_timestamp = 2000, snapshot_version = 1\<rparr>
     \<and> LocalStorageAPI_keys written_after_snapshot = [''x'', ''y'']
     \<and> fst (LocalStorageAPI_loadSnapshot written_after_snapshot ''S1'' 4000) = Inr ()
     \<and> LocalStorageAPI_keys (snd (LocalStorageAPI_loadSnapshot written_after_snapshot ''S1'' 4000))
       = [''x'', ''y'']
     \<and> fst (LocalStorageAPI_get (snd (LocalStorageAPI_loadSnapshot written_after_snapshot ''S1'' 4000))
            ''y'' 5000) = Inr (JNum 2)"
    by code_simp
  show ?thesis
    by (rule conjI) (rule every_state, rule scenario)
qed

section \<open>Unregistered snapshot names\<close>

text \<open>
  C5. Claim: for a name that is not registered, \<open>loadSnapshot\<close> (and \<open>compareSnapshots\<close> when
  either name is unregistered) fails with the distinct \<open>NotFoundError\<close> kind, not a generic
  error.

  The claim fails: on a fresh instance both throw an error constructed from the base class
  \<open>Error\<close>, which is an instance neither of a class \<open>NotFoundError\<close> nor of \<open>StorageError\<close>.
\<close>

theorem unregistered_snapshot_throws_plain_Error:
  "fst (LocalStorageAPI_loadSnapshot (constructor default_options node unused_libs) ''missing'' 1000)
     = Inl (Thrown ''Error'' ''Snapshot not found'')
   \<and> compareSnapshots (constructor default_options node unused_libs) ''missing'' ''other''
     = Inl (Thrown ''Error'' ''Snapshot not found'')
   \<and> \<not> instanceof (Thrown ''Error'' ''Snapshot not found'') ''NotFoundError''
   \<and> \<not> instanceof (Thrown ''Error'' ''Snapshot not found'') ''StorageError''"
  by code_simp

text \<open>
  C5, amended: for a name that is not registered, \<open>loadSnapshot\<close> throws a plain \<open>Error\<close> with
  the message \<open>Snapshot not found\<close> and leaves the instance as it was; \<open>compareSnapshots\<close>
  throws the same error when either of its names is unregistered. The error is an
  instance of \<open>Error\<close> and of no other class.
\<close>

theorem unregistered_snapshot_error:
  assumes "map_of (snapshots s) name = None"
  shows "LocalStorageAPI_loadSnapshot s name now = (Inl (Thrown ''Error'' ''Snapshot not found''), s)
    \<and> compareSnapshots s name other = Inl (Thrown ''Error'' ''Snapshot not found'')
    \<and> compareSnapshots s other name = Inl (Thrown ''Error'' ''Snapshot not found'')
    \<and> instanceof (Thrown ''Error'' ''Snapshot not found'') c = (c = ''Error'')"
  using assms
  by (auto simp: LocalStorageAPI_loadSnapshot_def compareSnapshots_def instanceof_def
      class_chain_def split: option.splits)

theorem unregistered_snapshot_error_witness:
  "map_of (snapshots two_snapshots) ''S3'' = None
   \<and> LocalStorageAPI_loadSnapshot two_snapshots ''S3'' 5000
     = (Inl (Thrown ''Error'' ''Snapshot not found''), two_snapshots)
   \<and> compareSnapshots two_snapshots ''S3'' ''S1'' = Inl (Thrown ''Error'' ''Snapshot not found'')
   \<and> compareSnapshots two_snapshots ''S1'' ''S3'' = Inl (Thrown ''Error'' ''Snapshot not found'')
   \<and> \<not> instanceof (Thrown ''Error'' ''Snapshot not found'') ''NotFoundError''"
proof -
  have unregistered: "map_of (snapshots two_snapshots) ''S3'' = None"
    by code_simp
  show ?thesis
    using unregistered
      unregistered_snapshot_error [OF unregistered, of 5000 "''S1''" "''NotFoundError''"]
    by simp
qed

section \<open>Comparing snapshots\<close>

text \<open>
  C8. Claim: for registered snapshots \<open>a\<close> and \<open>b\<close>, the \<open>added\<close> keys of comparing \<open>a\<close> with
  \<open>b\<close> are the \<open>removed\<close> keys of comparing \<open>b\<close> with \<open>a\<close> and the other way round; \<open>added\<close> is
  the keys of \<open>b\<close> absent from \<open>a\<close>, \<open>removed\<close> the keys of \<open>a\<close> absent from \<open>b\<close>, and \<open>changed\<close>
  the keys present in both with deep-unequal values.

  Two snapshots that hold different \<open>Map\<close>s under the key \<open>m\<close> compare as unchanged:
  \<open>compareSnapshots\<close> compares the \<open>JSON.stringify\<close> texts, and both print as \<open>{}\<close>. A key
  \<open>toString\<close> that only the second snapshot holds is reported as changed and not as added:
  the \<open>in\<close> test finds the name every object inherits.
\<close>

theorem changed_misses_unequal_maps:
  "map (\<lambda>(name, snap). (name, data snap)) (snapshots two_map_snapshots)
     = [(''a'', [(''m'', JMap [(JStr ''x'', JNum 1)])]),
        (''b'', [(''m'', JMap [(JStr ''x'', JNum 2)])])]
   \<and> JMap [(JStr ''x'', JNum 1)] \<noteq> JMap [(JStr ''x'', JNum 2)]
   \<and> compareSnapshots two_map_snapshots ''a'' ''b''
     = Inr \<lparr>added = [], removed = [], changed = []\<rparr>
   \<and> map (\<lambda>(name, snap). (name, data snap)) (snapshots snapshots_around_toString)
     = [(''a'', []), (''b'', [(''toString'', JNum 1)])]
   \<and> compareSnapshots snapshots_around_toString ''a'' ''b''
     = Inr \<lparr>added = [], removed = [], changed = [''toString'']\<rparr>"
  by code_simp

text \<open>
  The symmetry the claim states does hold of \<open>compareSnapshots\<close>: what one direction lists
  as added the other lists as removed, in the same order.
\<close>

lemma added_compare_loop:
  "added (compare_loop ks d1 d2 acc) = added acc @ filter (\<lambda>k. \<not> js_in k d1) ks"
  by (induction ks arbitrary: acc) auto

lemma removed_compare_loop:
  "removed (compare_loop ks d1 d2 acc) =
     removed acc @ filter (\<lambda>k. js_in k d1 \<and> \<not> js_in k d2) ks"
  by (induction ks arbitrary: acc) auto

lemma changed_compare_loop:
  "changed (compare_loop ks d1 d2 acc) =
     changed acc @ filter (\<lambda>k. js_in k d1 \<and> js_in k d2 \<and> property_text d1 k \<noteq> property_text d2 k) ks"
  by (induction ks arbitrary: acc) auto

lemma new_Set_of_keys_append:
  "new_Set_of_keys (xs @ ys) = new_Set_of_keys xs @ filter (\<lambda>y. y \<notin> set xs) (new_Set_of_keys ys)"
proof -
  have "remdups (us @ vs) = filter (\<lambda>y. y \<notin> set vs) (remdups us) @ remdups vs" for us vs :: "string list"
    by (induction us) auto
  then have "remdups (rev ys @ rev xs) =
      filter (\<lambda>y. y \<notin> set xs) (remdups (rev ys)) @ remdups (rev xs)"
    by simp
  then show ?thesis
    by (simp add: new_Set_of_keys_def rev_filter)
qed

lemma set_new_Set_of_keys [simp]: "set (new_Set_of_keys xs) = set xs"
  by (simp add: new_Set_of_keys_def)

lemma js_in_own: "k \<in> set (map fst d) \<Longrightarrow> js_in k d"
  by (simp add: js_in_def)

lemma filter_absent_all_keys:
  "filter (\<lambda>k. \<not> js_in k d1) (new_Set_of_keys (map fst d1 @ map fst d2)) =
   filter (\<lambda>k. \<not> js_in k d1) (new_Set_of_keys (map fst d2))"
proof -
  have "filter (\<lambda>k. \<not> js_in k d1) (new_Set_of_keys (map fst d1)) = []"
    by (auto simp: filter_empty_conv js_in_def)
  moreover have "filter (\<lambda>k. \<not> js_in k d1) (filter (\<lambda>y. y \<notin> set (map fst d1)) (new_Set_of_keys (map fst d2)))
     = filter (\<lambda>k. \<not> js_in k d1) (new_Set_of_keys (map fst d2))"
    by (auto simp: js_in_def intro: filter_cong)
  ultimately show ?thesis
    by (simp only: new_Set_of_keys_append filter_append) simp
qed

lemma filter_present_absent_all_keys:
  "filter (\<lambda>k. js_in k d1 \<and> \<not> js_in k d2) (new_Set_of_keys (map fst d1 @ map fst d2)) =
   filter (\<lambda>k. \<not> js_in k d2) (new_Set_of_keys (map fst d1))"
proof -
  have "filter (\<lambda>k. js_in k d1 \<and> \<not> js_in k d2) (new_Set_of_keys (map fst d1))
      = filter (\<lambda>k. \<not> js_in k d2) (new_Set_of_keys (map fst d1))"
    by (auto simp: js_in_def intro: filter_cong)
  moreover have "filter (\<lambda>k. js_in k d1 \<and> \<not> js_in k d2)
       (filter (\<lambda>y. y \<notin> set (map fst d1)) (new_Set_of_keys (map fst d2))) = []"
    by (auto simp: filter_empty_conv js_in_def)
  ultimately show ?thesis
    by (simp only: new_Set_of_keys_append filter_append) simp
qed

lemma compareSnapshots_symmetric:
  assumes "map_of (snapshots s) a = Some sa" and "map_of (snapshots s) b = Some sb"
  shows "\<exists>d d'. compareSnapshots s a b = Inr d \<and> compareSnapshots s b a = Inr d'
    \<and> added d = removed d' \<and> removed d = added d' \<and> set (changed d) = set (changed d')"
  using assms
  by (auto simp: compareSnapshots_def added_compare_loop removed_compare_loop
      changed_compare_loop filter_absent_all_keys filter_present_absent_all_keys)

section \<open>The query builder's limit\<close>




section \<open>The cache window\<close>

text \<open>No method assigns \<open>this.cacheTTL\<close>, and the constructor leaves it undefined.\<close>

lemma cacheTTL_constructor: "cacheTTL (constructor options w l) = None"
  by (simp add: constructor_def initLayers_def Let_def split: prod.splits option.splits)

lemma cacheTTL_caught [simp]: "cacheTTL (snd (caught act key e s)) = cacheTTL s"
  by (simp add: caught_def Let_def)

lemma cacheTTL_emit [simp]: "cacheTTL (emit ev s) = cacheTTL s"
  by (simp add: emit_def)

lemma cacheTTL_broadcast [simp]: "cacheTTL (broadcast ty key v now s) = cacheTTL s"
  by (simp add: broadcast_def split: option.splits)

lemma cacheTTL_layer_set: "layer_set s key v t now = Inr s' \<Longrightarrow> cacheTTL s' = cacheTTL s"
  by (auto simp: layer_set_def and_then_def split: layer.splits sum.splits)

lemma cacheTTL_layer_get [simp]: "cacheTTL (snd (layer_get s key now)) = cacheTTL s"
  by (simp add: layer_get_def split: layer.splits prod.splits)

lemma cacheTTL_layer_remove [simp]: "cacheTTL (layer_remove s key) = cacheTTL s"
  by (simp add: layer_remove_def split: layer.splits)

lemma cacheTTL_layer_clear [simp]: "cacheTTL (layer_clear s) = cacheTTL s"
  by (simp add: layer_clear_def split: layer.splits)

lemma cacheTTL_layer_has [simp]: "cacheTTL (snd (layer_has s key now)) = cacheTTL s"
  by (simp add: layer_has_def split: layer.splits prod.splits)

lemma cacheTTL_layer_size [simp]: "cacheTTL (snd (layer_size s now)) = cacheTTL s"
  by (simp add: layer_size_def split: layer.splits prod.splits)

lemma cacheTTL_layer_exportAll [simp]: "cacheTTL (snd (layer_exportAll s now)) = cacheTTL s"
  by (simp add: layer_exportAll_def split: layer.splits prod.splits)

lemma cacheTTL_layer_importAll [simp]: "cacheTTL (snd (layer_importAll s d now)) = cacheTTL s"
  by (simp add: layer_importAll_def split: layer.splits prod.splits)

lemma cacheTTL_layer_getD: "layer_get s key now = (r, s') \<Longrightarrow> cacheTTL s' = cacheTTL s"
  using cacheTTL_layer_get [of s key now] by simp

lemma cacheTTL_get [simp]: "cacheTTL (snd (LocalStorageAPI_get s key now)) = cacheTTL s"
  by (auto simp: LocalStorageAPI_get_def split: option.splits prod.splits sum.splits
      dest!: cacheTTL_layer_getD)

lemma cacheTTL_getD: "LocalStorageAPI_get s key now = (r, s') \<Longrightarrow> cacheTTL s' = cacheTTL s"
  using cacheTTL_get [of s key now] by simp

lemma cacheTTL_set [simp]:
  "cacheTTL (snd (LocalStorageAPI_set s key v options now)) = cacheTTL s"
  unfolding LocalStorageAPI_set_def Let_def
  by (auto split: option.splits prod.splits sum.splits
      dest!: cacheTTL_layer_set cacheTTL_getD)

lemma cacheTTL_setD:
  "LocalStorageAPI_set s key v options now = (r, s') \<Longrightarrow> cacheTTL s' = cacheTTL s"
  using cacheTTL_set [of s key v options now] by simp

lemma cacheTTL_remove [simp]: "cacheTTL (snd (LocalStorageAPI_remove s key now)) = cacheTTL s"
  unfolding LocalStorageAPI_remove_def Let_def
  by (auto split: option.splits prod.splits sum.splits dest!: cacheTTL_getD)

lemma cacheTTL_removeD:
  "LocalStorageAPI_remove s key now = (r, s') \<Longrightarrow> cacheTTL s' = cacheTTL s"
  using cacheTTL_remove [of s key now] by simp

lemma cacheTTL_clear [simp]: "cacheTTL (snd (LocalStorageAPI_clear s now)) = cacheTTL s"
  unfolding LocalStorageAPI_clear_def Let_def
  by (auto split: option.splits prod.splits sum.splits)

lemma cacheTTL_setMany [simp]:
  "cacheTTL (snd (LocalStorageAPI_setMany s items options now)) = cacheTTL s"
  by (induction s items options now rule: LocalStorageAPI_setMany.induct)
     (auto split: prod.splits sum.splits dest!: cacheTTL_setD)

lemma cacheTTL_getMany [simp]:
  "cacheTTL (snd (LocalStorageAPI_getMany s keys now results)) = cacheTTL s"
  by (induction s keys now results rule: LocalStorageAPI_getMany.induct)
     (auto split: prod.splits sum.splits dest!: cacheTTL_getD)

lemma cacheTTL_deleteMany [simp]:
  "cacheTTL (snd (LocalStorageAPI_deleteMany s keys now)) = cacheTTL s"
  by (induction s keys now rule: LocalStorageAPI_deleteMany.induct)
     (auto split: prod.splits sum.splits dest!: cacheTTL_removeD)

lemma cacheTTL_layer_exportAllD:
  "layer_exportAll s now = (r, s') \<Longrightarrow> cacheTTL s' = cacheTTL s"
  using cacheTTL_layer_exportAll [of s now] by simp

lemma cacheTTL_layer_importAllD:
  "layer_importAll s d now = (r, s') \<Longrightarrow> cacheTTL s' = cacheTTL s"
  using cacheTTL_layer_importAll [of s d now] by simp

lemma cacheTTL_exportAll [simp]: "cacheTTL (snd (LocalStorageAPI_exportAll s now)) = cacheTTL s"
  by (auto simp: LocalStorageAPI_exportAll_def split: prod.splits
      dest!: cacheTTL_layer_exportAllD)

lemma cacheTTL_exportAllD:
  "LocalStorageAPI_exportAll s now = (r, s') \<Longrightarrow> cacheTTL s' = cacheTTL s"
  using cacheTTL_exportAll [of s now] by simp

lemma cacheTTL_importAll [simp]:
  "cacheTTL (snd (LocalStorageAPI_importAll s d now)) = cacheTTL s"
  by (auto simp: LocalStorageAPI_importAll_def Let_def
      split: prod.splits sum.splits option.splits dest!: cacheTTL_layer_importAllD)

lemma cacheTTL_execute [simp]: "cacheTTL (snd (query_execute q s now)) = cacheTTL s"
  by (auto simp: query_execute_def split: prod.splits sum.splits dest!: cacheTTL_exportAllD)

lemma cacheTTL_saveSnapshot [simp]:
  "cacheTTL (snd (LocalStorageAPI_saveSnapshot s name now)) = cacheTTL s"
  by (auto simp: LocalStorageAPI_saveSnapshot_def split: prod.splits sum.splits
      dest!: cacheTTL_exportAllD)

lemma cacheTTL_loadSnapshot [simp]:
  "cacheTTL (snd (LocalStorageAPI_loadSnapshot s name now)) = cacheTTL s"
  by (simp add: LocalStorageAPI_loadSnapshot_def split: option.splits)

lemma reachable_cacheTTL: "reachable s \<Longrightarrow> cacheTTL s = None"
  by (induction rule: reachable.induct)
     (simp_all add: cacheTTL_constructor on_error_def LocalStorageAPI_has_def
        LocalStorageAPI_size_def)

lemma cached_get:
  assumes "cacheTTL s = None" and "cache s key = Some c" and "now - timestamp c < 300000"
  shows "LocalStorageAPI_get s key now =
    (Inr (cached_value c), s\<lparr>metrics := (metrics s)\<lparr>reads := reads (metrics s) + 1\<rparr>\<rparr>)"
  using assms by (simp add: LocalStorageAPI_get_def cache_window_def)

text \<open>
  C10. For every constructor options object, whatever its \<open>cacheTTL\<close>, a \<open>get\<close> of a key
  issued less than 300000 ms after the key's cache record was inserted returns the cached
  value without consulting the layer: the instance is left as it was but for the read
  counter, and the answer is the same whatever the layers hold. The window is fixed: the
  constructor never stores a cache TTL, in no reachable instance is one stored, and
  \<open>this.cacheTTL || 300000\<close> is 300000.
\<close>

theorem cache_window_is_fixed:
  assumes "reachable s" and "cache s key = Some c" and "now - timestamp c < 300000"
  shows "LocalStorageAPI_get s key now =
      (Inr (cached_value c), s\<lparr>metrics := (metrics s)\<lparr>reads := reads (metrics s) + 1\<rparr>\<rparr>)
    \<and> fst (LocalStorageAPI_get (s\<lparr>window := w', memory := m'\<rparr>) key now) = Inr (cached_value c)
    \<and> cacheTTL s = None
    \<and> cache_window s = 300000
    \<and> cacheTTL (constructor options w l) = None
    \<and> cache_window (constructor options w l) = 300000"
proof -
  have none: "cacheTTL s = None"
    by (rule reachable_cacheTTL [OF assms(1)])
  have "cacheTTL (s\<lparr>window := w', memory := m'\<rparr>) = None"
    and "cache (s\<lparr>window := w', memory := m'\<rparr>) key = Some c"
    using none assms(2) by simp_all
  from cached_get [OF this assms(3)] cached_get [OF none assms(2) assms(3)] none
  show ?thesis
    by (simp add: cache_window_def cacheTTL_constructor)
qed


theorem cache_window_is_fixed_witness:
  "reachable written_with_cacheTTL_option
   \<and> cache written_with_cacheTTL_option ''k'' = Some \<lparr>cached_value = JStr ''v'', timestamp = 1000\<rparr>
   \<and> 300999 - timestamp \<lparr>cached_value = JStr ''v'', timestamp = 1000\<rparr> < 300000
   \<and> fst (LocalStorageAPI_get written_with_cacheTTL_option ''k'' 300999) = Inr (JStr ''v'')
   \<and> fst (LocalStorageAPI_get (written_with_cacheTTL_option\<lparr>window := node, memory := []\<rparr>)
          ''k'' 300999) = Inr (JStr ''v'')
   \<and> cache_window written_with_cacheTTL_option = 300000"
proof -
  have reached: "reachable written_with_cacheTTL_option"
    unfolding written_with_cacheTTL_option_def
    by (rule reachable.after_set [OF reachable.constructed])
  have cached: "cache written_with_cacheTTL_option ''k''
      = Some \<lparr>cached_value = JStr ''v'', timestamp = 1000\<rparr>"
    by code_simp
  have fresh: "300999 - timestamp \<lparr>cached_value = JStr ''v'', timestamp = 1000\<rparr> < 300000"
    by simp
  show ?thesis
    using cache_window_is_fixed [OF reached cached fresh, where w' = node and m' = "[]"]
      reached cached
    by simp
qed

end
